theory Spec2Isabelle
  imports Main
begin

section \<open>Venue scheduling of the campus event backend\<close>

text \<open>
  A shallow embedding of the event controller (\<^verbatim>\<open>checkEventConflict\<close>,
  \<^verbatim>\<open>createEvent\<close>, \<^verbatim>\<open>updateEvent\<close>, \<^verbatim>\<open>checkAvailability\<close>,
  \<^verbatim>\<open>getVenueSchedule\<close>). The database behind the ORM is an explicit value that every
  handler receives and returns; every call a handler makes on the ORM client is
  recorded, in order, in the handler's outcome.
\<close>

subsection \<open>Dates\<close>

text \<open>
  A JavaScript \<^verbatim>\<open>Date\<close> holds a time value in milliseconds or NaN (an invalid
  date). The relational operators compare the time values, and every comparison with NaN
  is false. Constructing a date from a number clips it to the range of time values.
\<close>

datatype Date = InvalidDate | ValidDate int

fun date_lt :: "Date \<Rightarrow> Date \<Rightarrow> bool" where
  "date_lt (ValidDate a) (ValidDate b) = (a < b)"
| "date_lt _ _ = False"

fun date_ge :: "Date \<Rightarrow> Date \<Rightarrow> bool" where
  "date_ge (ValidDate a) (ValidDate b) = (a \<ge> b)"
| "date_ge _ _ = False"

definition maxTime :: int where
  "maxTime = 8640000000000000"

definition newDate :: "int \<Rightarrow> Date" where
  "newDate t = (if - maxTime \<le> t \<and> t \<le> maxTime then ValidDate t else InvalidDate)"

text \<open>\<^verbatim>\<open>new Date(start.getTime() + ms)\<close>: the time value of an invalid date is NaN.\<close>

fun plusMs :: "Date \<Rightarrow> int \<Rightarrow> Date" where
  "plusMs (ValidDate t) ms = newDate (t + ms)"
| "plusMs InvalidDate ms = InvalidDate"

subsection \<open>The stored data\<close>

text \<open>
  The tables the controller reads, with the columns of the schema. A \<^verbatim>\<open>DateTime\<close>
  column always holds a valid date, so it is its time value. Identifiers are primary keys.
\<close>

datatype EventStatus = PENDING | APPROVED | REJECTED | CANCELLED

datatype UserRole = STUDENT | ORGANIZER | ADMIN

record User =
  user_id :: string
  email :: string
  name :: string
  clubName :: "string option"

record Event =
  event_id :: string
  title :: string
  description :: string
  imageUrl :: "string option"
  location :: string
  startDate :: int
  endDate :: int
  maxAttendees :: int
  currentAttendees :: int
  status :: EventStatus
  category :: string
  tags :: "string list"
  createdById :: string

record Db =
  events :: "Event list"
  users :: "User list"

text \<open>The calls on the ORM client, and the exceptions a handler's \<^verbatim>\<open>catch\<close> sees.\<close>

datatype PrismaCall = EventFindFirst | EventFindMany | EventFindUnique | EventCreate | EventUpdate

datatype Exn = PrismaValidationError | PrismaRequestError | TypeError

text \<open>The relation \<^verbatim>\<open>createdBy\<close> of an event, as \<^verbatim>\<open>include\<close> and \<^verbatim>\<open>select\<close> load it.\<close>

definition createdBy :: "Db \<Rightarrow> Event \<Rightarrow> User option" where
  "createdBy db ev = find (\<lambda>u. user_id u = createdById ev) (users db)"

definition truthy :: "string \<Rightarrow> bool" where
  "truthy s = (s \<noteq> [])"

subsection \<open>checkEventConflict\<close>

text \<open>
  The \<^verbatim>\<open>where\<close> object of \<^verbatim>\<open>checkEventConflict\<close> as a predicate on a stored event:
  the location, the status list, the three interval cases under \<^verbatim>\<open>OR\<close>, and the
  \<^verbatim>\<open>id: { not: excludeEventId }\<close> that is added only for a truthy \<^verbatim>\<open>excludeEventId\<close>.
\<close>

definition conflictCases :: "int \<Rightarrow> int \<Rightarrow> Event \<Rightarrow> bool" where
  "conflictCases s e ev =
     ((startDate ev \<le> s \<and> endDate ev > s)
      \<or> (startDate ev < e \<and> endDate ev \<ge> e)
      \<or> (startDate ev \<ge> s \<and> endDate ev \<le> e))"

definition notExcluded :: "string option \<Rightarrow> Event \<Rightarrow> bool" where
  "notExcluded excludeEventId ev =
     (case excludeEventId of
        None \<Rightarrow> True
      | Some x \<Rightarrow> (if truthy x then event_id ev \<noteq> x else True))"

definition conflictWhere :: "string \<Rightarrow> int \<Rightarrow> int \<Rightarrow> string option \<Rightarrow> Event \<Rightarrow> bool" where
  "conflictWhere loc s e excludeEventId ev =
     (location ev = loc
      \<and> status ev \<in> set [APPROVED, PENDING]
      \<and> conflictCases s e ev
      \<and> notExcluded excludeEventId ev)"

record ConflictResult =
  hasConflict :: bool
  conflictingEvent :: "(Event \<times> User option) option"

text \<open>
  \<^verbatim>\<open>findFirst\<close> returns the first row that matches, in the order of the table, with
  its \<^verbatim>\<open>createdBy\<close>. The ORM refuses an invalid date in a query with an exception.
\<close>

fun checkEventConflict ::
  "Db \<Rightarrow> string \<Rightarrow> Date \<Rightarrow> Date \<Rightarrow> string option \<Rightarrow> Exn + ConflictResult" where
  "checkEventConflict db loc (ValidDate s) (ValidDate e) excludeEventId =
     (case find (conflictWhere loc s e excludeEventId) (events db) of
        None \<Rightarrow> Inr \<lparr>hasConflict = False, conflictingEvent = None\<rparr>
      | Some ev \<Rightarrow> Inr \<lparr>hasConflict = True, conflictingEvent = Some (ev, createdBy db ev)\<rparr>)"
| "checkEventConflict db loc _ _ excludeEventId = Inl PrismaValidationError"

subsection \<open>What the handlers take from their environment\<close>

text \<open>
  The clock and the library functions the handlers call are parameters: the time
  \<^verbatim>\<open>new Date()\<close> reads, \<^verbatim>\<open>new Date(string)\<close>, \<^verbatim>\<open>toLocaleString\<close>, the two
  validators of the request validator, \<^verbatim>\<open>parseInt\<close> (\<open>None\<close> is NaN), \<^verbatim>\<open>JSON.parse\<close>
  restricted to what the handler keeps of it (\<open>None\<close> when it throws or gives no
  array), what the ORM stores when a list column is given a string (\<open>None\<close> when it
  refuses), and the identifier given to a new row.
\<close>

record Env =
  now :: int
  parseDate :: "string \<Rightarrow> Date"
  toLocaleString :: "int \<Rightarrow> string"
  isISO8601 :: "string \<Rightarrow> bool"
  isIntMin1 :: "string \<Rightarrow> bool"
  parseIntJS :: "string \<Rightarrow> int option"
  jsonParseArray :: "string \<Rightarrow> string list option"
  tagsOfString :: "string \<Rightarrow> string list option"
  newId :: string

subsection \<open>Requests and responses\<close>

text \<open>
  A field of a request body or query is a string, empty when the field is absent: no test
  of these handlers (truthiness, \<^verbatim>\<open>notEmpty\<close>, \<^verbatim>\<open>new Date\<close>, \<^verbatim>\<open>parseInt\<close>) tells
  an absent field from an empty one. \<^verbatim>\<open>tags\<close> arrives as a JSON array or, from form
  data, as a string.
\<close>

datatype Tags = TagsAbsent | TagsString string | TagsArray "string list"

record EventBody =
  b_title :: string
  b_description :: string
  b_location :: string
  b_startDate :: string
  b_endDate :: string
  b_maxAttendees :: string
  b_category :: string
  b_tags :: Tags

record CreateReq =
  c_body :: EventBody
  c_file :: "string option"
  c_userId :: string

record UpdateReq =
  u_id :: string
  u_userId :: string
  u_role :: UserRole
  u_body :: EventBody

record AvailabilityQuery =
  q_location :: string
  q_startDate :: string
  q_endDate :: string
  q_excludeEventId :: string

record ScheduleQuery =
  s_location :: string
  s_startDate :: string
  s_endDate :: string

record ConflictSummary =
  cs_id :: string
  cs_title :: string
  cs_startDate :: int
  cs_endDate :: int
  cs_organizer :: "string option"

record Slot =
  slot_id :: string
  slot_title :: string
  slot_start :: int
  slot_end :: int
  slot_status :: EventStatus
  slot_organizer :: string

datatype Body =
    ErrorJson string
  | ErrorsJson "string list"
  | ConflictJson string string ConflictSummary
  | EventJson string Event "User option"
  | AvailableJson bool string "ConflictSummary option"
  | ScheduleJson string Date Date "Slot list"

record Response =
  statusCode :: nat
  body :: Body

text \<open>What a handler leaves behind: its response, the database, its calls on the ORM.\<close>

record Outcome =
  response :: Response
  store :: Db
  calls :: "PrismaCall list"

definition reply :: "nat \<Rightarrow> Body \<Rightarrow> Db \<Rightarrow> PrismaCall list \<Rightarrow> Outcome" where
  "reply code b db cs = \<lparr>response = \<lparr>statusCode = code, body = b\<rparr>, store = db, calls = cs\<rparr>"

text \<open>\<^verbatim>\<open>new Date(field)\<close>: an absent field gives an invalid date.\<close>

definition newDateOf :: "Env \<Rightarrow> string \<Rightarrow> Date" where
  "newDateOf env s = (if truthy s then parseDate env s else InvalidDate)"

text \<open>\<^verbatim>\<open>createdBy?.name || createdBy?.clubName\<close>\<close>

definition organizerOf :: "User option \<Rightarrow> string option" where
  "organizerOf u =
     (case u of
        None \<Rightarrow> None
      | Some usr \<Rightarrow> (if truthy (name usr) then Some (name usr) else clubName usr))"

definition summary :: "Event \<times> User option \<Rightarrow> ConflictSummary" where
  "summary c =
     \<lparr>cs_id = event_id (fst c), cs_title = title (fst c),
      cs_startDate = startDate (fst c), cs_endDate = endDate (fst c),
      cs_organizer = organizerOf (snd c)\<rparr>"

definition bookedFor :: "Event \<Rightarrow> string" where
  "bookedFor ev = ''This venue is already booked for '' @ [CHR 0x22] @ title ev @ [CHR 0x22]"

definition conflictMessage :: "Env \<Rightarrow> Event \<Rightarrow> string" where
  "conflictMessage env ev =
     bookedFor ev @ '' from '' @ toLocaleString env (startDate ev)
       @ '' to '' @ toLocaleString env (endDate ev)"

text \<open>The 409 response that \<^verbatim>\<open>createEvent\<close> and \<^verbatim>\<open>updateEvent\<close> build alike.\<close>

definition conflictBody :: "Env \<Rightarrow> Event \<times> User option \<Rightarrow> Body" where
  "conflictBody env c =
     ConflictJson ''Venue conflict detected'' (conflictMessage env (fst c)) (summary c)"

subsection \<open>Writing rows\<close>

definition fitsInt32 :: "int \<Rightarrow> bool" where
  "fitsInt32 n = (- 2147483648 \<le> n \<and> n \<le> 2147483647)"

text \<open>
  \<^verbatim>\<open>prisma.event.create\<close>: the ORM refuses an invalid date and a number that is NaN or
  does not fit the integer column; the database refuses a creator that is no user. The
  new row has no attendees yet.
\<close>

fun eventCreate ::
  "Env \<Rightarrow> Db \<Rightarrow> EventBody \<Rightarrow> Date \<Rightarrow> Date \<Rightarrow> string list \<Rightarrow> string option \<Rightarrow> string
     \<Rightarrow> Exn + (Db \<times> Event)" where
  "eventCreate env db b (ValidDate s) (ValidDate e) tgs img uid =
     (case parseIntJS env (b_maxAttendees b) of
        None \<Rightarrow> Inl PrismaValidationError
      | Some m \<Rightarrow>
          if \<not> fitsInt32 m then Inl PrismaValidationError
          else if find (\<lambda>u. user_id u = uid) (users db) = None then Inl PrismaRequestError
          else
            let ev = \<lparr>event_id = newId env, title = b_title b, description = b_description b,
                      imageUrl = img, location = b_location b, startDate = s, endDate = e,
                      maxAttendees = m, currentAttendees = 0, status = PENDING,
                      category = b_category b, tags = tgs, createdById = uid\<rparr>
            in Inr (db\<lparr>events := events db @ [ev]\<rparr>, ev))"
| "eventCreate env db b _ _ tgs img uid = Inl PrismaValidationError"

text \<open>
  The \<^verbatim>\<open>data\<close> object of \<^verbatim>\<open>prisma.event.update\<close>, applied to a row: each field is
  written only when the request's value is truthy.
\<close>

definition setDates :: "Env \<Rightarrow> EventBody \<Rightarrow> Event \<Rightarrow> Exn + Event" where
  "setDates env b ev =
     (case (if truthy (b_startDate b) then parseDate env (b_startDate b)
            else ValidDate (startDate ev)) of
        InvalidDate \<Rightarrow> Inl PrismaValidationError
      | ValidDate s \<Rightarrow>
          (case (if truthy (b_endDate b) then parseDate env (b_endDate b)
                 else ValidDate (endDate ev)) of
             InvalidDate \<Rightarrow> Inl PrismaValidationError
           | ValidDate e \<Rightarrow> Inr (ev\<lparr>startDate := s, endDate := e\<rparr>)))"

definition setMaxAttendees :: "Env \<Rightarrow> EventBody \<Rightarrow> Event \<Rightarrow> Exn + Event" where
  "setMaxAttendees env b ev =
     (if truthy (b_maxAttendees b) then
        (case parseIntJS env (b_maxAttendees b) of
           None \<Rightarrow> Inl PrismaValidationError
         | Some m \<Rightarrow> if fitsInt32 m then Inr (ev\<lparr>maxAttendees := m\<rparr>)
                     else Inl PrismaValidationError)
      else Inr ev)"

definition setTags :: "Env \<Rightarrow> EventBody \<Rightarrow> Event \<Rightarrow> Exn + Event" where
  "setTags env b ev =
     (case b_tags b of
        TagsAbsent \<Rightarrow> Inr ev
      | TagsArray xs \<Rightarrow> Inr (ev\<lparr>tags := xs\<rparr>)
      | TagsString t \<Rightarrow>
          if truthy t then
            (case tagsOfString env t of
               None \<Rightarrow> Inl PrismaValidationError
             | Some xs \<Rightarrow> Inr (ev\<lparr>tags := xs\<rparr>))
          else Inr ev)"

definition setTexts :: "EventBody \<Rightarrow> Event \<Rightarrow> Event" where
  "setTexts b ev =
     ev\<lparr>title := (if truthy (b_title b) then b_title b else title ev),
        description := (if truthy (b_description b) then b_description b else description ev),
        location := (if truthy (b_location b) then b_location b else location ev),
        category := (if truthy (b_category b) then b_category b else category ev)\<rparr>"

definition updateData :: "Env \<Rightarrow> EventBody \<Rightarrow> Event \<Rightarrow> Exn + Event" where
  "updateData env b ev =
     (case setDates env b (setTexts b ev) of
        Inl x \<Rightarrow> Inl x
      | Inr ev1 \<Rightarrow>
          (case setMaxAttendees env b ev1 of
             Inl x \<Rightarrow> Inl x
           | Inr ev2 \<Rightarrow> setTags env b ev2))"

text \<open>\<^verbatim>\<open>prisma.event.update\<close> on the row of the given identifier.\<close>

definition eventUpdate :: "Env \<Rightarrow> Db \<Rightarrow> string \<Rightarrow> EventBody \<Rightarrow> Exn + (Db \<times> Event)" where
  "eventUpdate env db i b =
     (case find (\<lambda>ev. event_id ev = i) (events db) of
        None \<Rightarrow> Inl PrismaRequestError
      | Some ev \<Rightarrow>
          (case updateData env b ev of
             Inl x \<Rightarrow> Inl x
           | Inr ev' \<Rightarrow>
               Inr (db\<lparr>events := map (\<lambda>r. if event_id r = i then ev' else r) (events db)\<rparr>,
                    ev')))"

subsection \<open>createEvent\<close>

text \<open>The validator chain \<^verbatim>\<open>createEventValidation\<close>; its result is the list of messages.\<close>

definition validationResult :: "Env \<Rightarrow> EventBody \<Rightarrow> string list" where
  "validationResult env b =
     (if truthy (b_title b) then [] else [''Title is required''])
     @ (if truthy (b_description b) then [] else [''Description is required''])
     @ (if truthy (b_location b) then [] else [''Location is required''])
     @ (if truthy (b_startDate b) \<and> isISO8601 env (b_startDate b) then []
        else [''Valid start date is required''])
     @ (if truthy (b_endDate b) \<and> isISO8601 env (b_endDate b) then []
        else [''Valid end date is required''])
     @ (if truthy (b_maxAttendees b) \<and> isIntMin1 env (b_maxAttendees b) then []
        else [''Max attendees must be at least 1''])
     @ (if truthy (b_category b) then [] else [''Category is required''])"

text \<open>A string is parsed as JSON, and whatever is not an array becomes the empty array.\<close>

definition normTags :: "Env \<Rightarrow> Tags \<Rightarrow> string list" where
  "normTags env t =
     (case t of
        TagsAbsent \<Rightarrow> []
      | TagsArray xs \<Rightarrow> xs
      | TagsString str \<Rightarrow> (case jsonParseArray env str of None \<Rightarrow> [] | Some xs \<Rightarrow> xs))"

definition imageUrlOf :: "string option \<Rightarrow> string option" where
  "imageUrlOf file = (case file of None \<Rightarrow> None | Some filename \<Rightarrow> Some (''/uploads/'' @ filename))"

definition createEvent :: "Env \<Rightarrow> Db \<Rightarrow> CreateReq \<Rightarrow> Outcome" where
  "createEvent env db req =
     (let b = c_body req; errors = validationResult env b in
      if errors \<noteq> [] then reply 400 (ErrorsJson errors) db []
      else
        let tgs = normTags env (b_tags b);
            start = newDateOf env (b_startDate b);
            end' = newDateOf env (b_endDate b)
        in
          if date_ge start end' then
            reply 400 (ErrorJson ''End date must be after start date'') db []
          else if date_lt start (ValidDate (now env)) then
            reply 400 (ErrorJson ''Start date must be in the future'') db []
          else
            (case checkEventConflict db (b_location b) start end' None of
               Inl x \<Rightarrow> reply 500 (ErrorJson ''Failed to create event'') db [EventFindFirst]
             | Inr r \<Rightarrow>
                 if hasConflict r then
                   (case conflictingEvent r of
                      None \<Rightarrow> reply 500 (ErrorJson ''Failed to create event'') db [EventFindFirst]
                    | Some c \<Rightarrow> reply 409 (conflictBody env c) db [EventFindFirst])
                 else
                   (case eventCreate env db b start end' tgs (imageUrlOf (c_file req))
                           (c_userId req) of
                      Inl x \<Rightarrow>
                        reply 500 (ErrorJson ''Failed to create event'') db
                          [EventFindFirst, EventCreate]
                    | Inr (db', ev) \<Rightarrow>
                        reply 201
                          (EventJson ''Event created successfully and pending approval'' ev
                             (createdBy db' ev))
                          db' [EventFindFirst, EventCreate])))"

subsection \<open>updateEvent\<close>

text \<open>The last step of \<^verbatim>\<open>updateEvent\<close>, after the calls \<open>cs\<close> made so far.\<close>

definition persistUpdate :: "Env \<Rightarrow> Db \<Rightarrow> UpdateReq \<Rightarrow> PrismaCall list \<Rightarrow> Outcome" where
  "persistUpdate env db req cs =
     (case eventUpdate env db (u_id req) (u_body req) of
        Inl x \<Rightarrow> reply 500 (ErrorJson ''Failed to update event'') db (cs @ [EventUpdate])
      | Inr (db', ev) \<Rightarrow>
          reply 200 (EventJson ''Event updated successfully'' ev (createdBy db' ev)) db'
            (cs @ [EventUpdate]))"

text \<open>
  The slot that the request asks for: a field that the request does not supply is taken
  from the stored event.
\<close>

definition newLocation :: "EventBody \<Rightarrow> Event \<Rightarrow> string" where
  "newLocation b event = (if truthy (b_location b) then b_location b else location event)"

definition newStartDate :: "Env \<Rightarrow> EventBody \<Rightarrow> Event \<Rightarrow> Date" where
  "newStartDate env b event =
     (if truthy (b_startDate b) then parseDate env (b_startDate b)
      else ValidDate (startDate event))"

definition newEndDate :: "Env \<Rightarrow> EventBody \<Rightarrow> Event \<Rightarrow> Date" where
  "newEndDate env b event =
     (if truthy (b_endDate b) then parseDate env (b_endDate b)
      else ValidDate (endDate event))"

definition updateEvent :: "Env \<Rightarrow> Db \<Rightarrow> UpdateReq \<Rightarrow> Outcome" where
  "updateEvent env db req =
     (case find (\<lambda>ev. event_id ev = u_id req) (events db) of
        None \<Rightarrow> reply 404 (ErrorJson ''Event not found'') db [EventFindUnique]
      | Some event \<Rightarrow>
          if createdById event \<noteq> u_userId req \<and> u_role req \<noteq> ADMIN then
            reply 403 (ErrorJson ''You can only update your own events'') db [EventFindUnique]
          else
            let b = u_body req in
            if truthy (b_location b) \<or> truthy (b_startDate b) \<or> truthy (b_endDate b) then
              if date_ge (newStartDate env b event) (newEndDate env b event) then
                reply 400 (ErrorJson ''End date must be after start date'') db [EventFindUnique]
              else
                (case checkEventConflict db (newLocation b event) (newStartDate env b event)
                        (newEndDate env b event) (Some (u_id req)) of
                   Inl x \<Rightarrow>
                     reply 500 (ErrorJson ''Failed to update event'') db
                       [EventFindUnique, EventFindFirst]
                 | Inr r \<Rightarrow>
                     if hasConflict r then
                       (case conflictingEvent r of
                          None \<Rightarrow>
                            reply 500 (ErrorJson ''Failed to update event'') db
                              [EventFindUnique, EventFindFirst]
                        | Some c \<Rightarrow>
                            reply 409 (conflictBody env c) db [EventFindUnique, EventFindFirst])
                     else persistUpdate env db req [EventFindUnique, EventFindFirst])
            else persistUpdate env db req [EventFindUnique])"

subsection \<open>checkAvailability\<close>

definition checkAvailability :: "Env \<Rightarrow> Db \<Rightarrow> AvailabilityQuery \<Rightarrow> Outcome" where
  "checkAvailability env db q =
     (if \<not> truthy (q_location q) \<or> \<not> truthy (q_startDate q) \<or> \<not> truthy (q_endDate q) then
        reply 400 (ErrorJson ''Location, start date, and end date are required'') db []
      else
        let start = parseDate env (q_startDate q);
            end' = parseDate env (q_endDate q)
        in
          if date_ge start end' then
            reply 400 (ErrorJson ''End date must be after start date'') db []
          else
            (case checkEventConflict db (q_location q) start end'
                    (if truthy (q_excludeEventId q) then Some (q_excludeEventId q) else None) of
               Inl x \<Rightarrow> reply 500 (ErrorJson ''Failed to check availability'') db [EventFindFirst]
             | Inr r \<Rightarrow>
                 if hasConflict r then
                   (case conflictingEvent r of
                      None \<Rightarrow>
                        reply 500 (ErrorJson ''Failed to check availability'') db [EventFindFirst]
                    | Some c \<Rightarrow>
                        reply 200 (AvailableJson False (bookedFor (fst c)) (Some (summary c))) db
                          [EventFindFirst])
                 else
                   reply 200 (AvailableJson True ''Venue is available for the selected time'' None)
                     db [EventFindFirst]))"

subsection \<open>getVenueSchedule\<close>

definition scheduleCases :: "int \<Rightarrow> int \<Rightarrow> Event \<Rightarrow> bool" where
  "scheduleCases s e ev =
     ((startDate ev \<ge> s \<and> startDate ev \<le> e)
      \<or> (endDate ev \<ge> s \<and> endDate ev \<le> e)
      \<or> (startDate ev \<le> s \<and> endDate ev \<ge> e))"

definition scheduleWhere :: "string \<Rightarrow> int \<Rightarrow> int \<Rightarrow> Event \<Rightarrow> bool" where
  "scheduleWhere loc s e ev =
     (location ev = loc
      \<and> status ev \<in> set [APPROVED, PENDING]
      \<and> scheduleCases s e ev)"

text \<open>
  \<^verbatim>\<open>findMany\<close> with \<^verbatim>\<open>orderBy: { startDate: 'asc' }\<close>: the matching rows, sorted by
  their start, rows of equal start in the order of the table.
\<close>

fun eventFindMany :: "Db \<Rightarrow> string \<Rightarrow> Date \<Rightarrow> Date \<Rightarrow> Exn + (Event \<times> User option) list" where
  "eventFindMany db loc (ValidDate s) (ValidDate e) =
     Inr (map (\<lambda>ev. (ev, createdBy db ev))
            (sort_key startDate (filter (scheduleWhere loc s e) (events db))))"
| "eventFindMany db loc _ _ = Inl PrismaValidationError"

text \<open>One booked slot; \<^verbatim>\<open>event.createdBy.name\<close> throws when there is no creator.\<close>

definition slotOf :: "Event \<times> User option \<Rightarrow> Slot option" where
  "slotOf r =
     (case snd r of
        None \<Rightarrow> None
      | Some usr \<Rightarrow>
          Some \<lparr>slot_id = event_id (fst r), slot_title = title (fst r),
                slot_start = startDate (fst r), slot_end = endDate (fst r),
                slot_status = status (fst r), slot_organizer = name usr\<rparr>)"

definition weekMs :: int where
  "weekMs = 7 * 24 * 60 * 60 * 1000"

text \<open>
  The window of the schedule: without a start the current time, without an end seven
  days after the start.
\<close>

definition scheduleStart :: "Env \<Rightarrow> ScheduleQuery \<Rightarrow> Date" where
  "scheduleStart env q =
     (if truthy (s_startDate q) then parseDate env (s_startDate q) else ValidDate (now env))"

definition scheduleEnd :: "Env \<Rightarrow> ScheduleQuery \<Rightarrow> Date" where
  "scheduleEnd env q =
     (if truthy (s_endDate q) then parseDate env (s_endDate q)
      else plusMs (scheduleStart env q) weekMs)"

definition getVenueSchedule :: "Env \<Rightarrow> Db \<Rightarrow> ScheduleQuery \<Rightarrow> Outcome" where
  "getVenueSchedule env db q =
     (if \<not> truthy (s_location q) then reply 400 (ErrorJson ''Location is required'') db []
      else
        (case eventFindMany db (s_location q) (scheduleStart env q) (scheduleEnd env q) of
           Inl x \<Rightarrow> reply 500 (ErrorJson ''Failed to fetch venue schedule'') db [EventFindMany]
         | Inr rows \<Rightarrow>
             (case those (map slotOf rows) of
                None \<Rightarrow>
                  reply 500 (ErrorJson ''Failed to fetch venue schedule'') db [EventFindMany]
              | Some bookedSlots \<Rightarrow>
                  reply 200
                    (ScheduleJson (s_location q) (scheduleStart env q) (scheduleEnd env q)
                       bookedSlots)
                    db [EventFindMany])))"

subsection \<open>The invariant of the stored events and the specification's overlap\<close>

text \<open>A stored event runs from its start to a strictly later end.\<close>

definition wf_event :: "Event \<Rightarrow> bool" where
  "wf_event ev = (startDate ev < endDate ev)"

definition wf_db :: "Db \<Rightarrow> bool" where
  "wf_db db = list_all wf_event (events db)"

text \<open>
  The general overlap of the half-open intervals \<open>[s, e)\<close> and that of the stored event,
  as the specification words it.
\<close>

definition overlaps :: "int \<Rightarrow> int \<Rightarrow> Event \<Rightarrow> bool" where
  "overlaps s e ev = (s < endDate ev \<and> startDate ev < e)"

definition occupies :: "string \<Rightarrow> Event \<Rightarrow> bool" where
  "occupies loc ev = (location ev = loc \<and> (status ev = PENDING \<or> status ev = APPROVED))"

text \<open>The foreign key of the events: the creator of every stored event is a stored user.\<close>

definition fk_db :: "Db \<Rightarrow> bool" where
  "fk_db db = list_all (\<lambda>ev. createdBy db ev \<noteq> None) (events db)"

text \<open>
  The closed-interval test of the schedule as the specification words it: the start in
  the window, the end in the window, or the event spanning the window.
\<close>

definition inWindow :: "int \<Rightarrow> int \<Rightarrow> Event \<Rightarrow> bool" where
  "inWindow s e ev =
     ((s \<le> startDate ev \<and> startDate ev \<le> e)
      \<or> (s \<le> endDate ev \<and> endDate ev \<le> e)
      \<or> (startDate ev \<le> s \<and> endDate ev \<ge> e))"

text \<open>A booked slot shows a stored event: its fields, and its creator's name.\<close>

definition showsEvent :: "Db \<Rightarrow> Slot \<Rightarrow> Event \<Rightarrow> bool" where
  "showsEvent db sl ev =
     (slot_id sl = event_id ev \<and> slot_title sl = title ev \<and> slot_start sl = startDate ev
      \<and> slot_end sl = endDate ev \<and> slot_status sl = status ev
      \<and> map_option name (createdBy db ev) = Some (slot_organizer sl))"

subsection \<open>A small database for the examples\<close>

text \<open>
  One organizer and one approved event in the main hall from 10:00 to 12:00 of the first
  day of the epoch; times are in milliseconds.
\<close>

definition organizer1 :: User where
  "organizer1 =
     \<lparr>user_id = ''u1'', email = ''tech.club@campus.edu'', name = ''Tech Club President'',
      clubName = Some ''Technology Club''\<rparr>"

definition seminar :: Event where
  "seminar =
     \<lparr>event_id = ''e1'', title = ''Seminar'', description = ''Trends'', imageUrl = None,
      location = ''Main Hall'', startDate = 36000000, endDate = 43200000,
      maxAttendees = 100, currentAttendees = 0, status = APPROVED,
      category = ''Seminar'', tags = [], createdById = ''u1''\<rparr>"

definition campusDb :: Db where
  "campusDb = \<lparr>events = [seminar], users = [organizer1]\<rparr>"

text \<open>A second table: a pending lecture from 08:00 to 09:00 stored after the seminar.\<close>

definition lecture :: Event where
  "lecture =
     \<lparr>event_id = ''e0'', title = ''Lecture'', description = ''Logic'', imageUrl = None,
      location = ''Main Hall'', startDate = 28800000, endDate = 32400000,
      maxAttendees = 30, currentAttendees = 0, status = PENDING,
      category = ''Lecture'', tags = [], createdById = ''u1''\<rparr>"

definition busyDb :: Db where
  "busyDb = \<lparr>events = [seminar, lecture], users = [organizer1]\<rparr>"

definition clockParse :: "string \<Rightarrow> Date" where
  "clockParse str =
     (if str = ''09:00'' then ValidDate 32400000
      else if str = ''10:00'' then ValidDate 36000000
      else if str = ''11:00'' then ValidDate 39600000
      else if str = ''12:00'' then ValidDate 43200000
      else if str = ''13:00'' then ValidDate 46800000
      else InvalidDate)"

definition campusEnv :: Env where
  "campusEnv =
     \<lparr>now = 0, parseDate = clockParse, toLocaleString = (\<lambda>t. ''a date''),
      isISO8601 = (\<lambda>str. clockParse str \<noteq> InvalidDate),
      isIntMin1 = (\<lambda>str. str = ''50''),
      parseIntJS = (\<lambda>str. if str = ''50'' then Some 50 else None),
      jsonParseArray = (\<lambda>str. None), tagsOfString = (\<lambda>str. None), newId = ''e2''\<rparr>"

definition emptyBody :: EventBody where
  "emptyBody =
     \<lparr>b_title = [], b_description = [], b_location = [], b_startDate = [], b_endDate = [],
      b_maxAttendees = [], b_category = [], b_tags = TagsAbsent\<rparr>"

definition workshopBody :: EventBody where
  "workshopBody =
     \<lparr>b_title = ''Workshop'', b_description = ''React'', b_location = ''Main Hall'',
      b_startDate = ''11:00'', b_endDate = ''13:00'', b_maxAttendees = ''50'',
      b_category = ''Workshop'', b_tags = TagsAbsent\<rparr>"

section \<open>Properties\<close>

subsection \<open>The three coded cases and the general overlap\<close>

lemma conflictCases_overlaps:
  assumes "s < e" and "wf_event ev"
  shows "conflictCases s e ev = overlaps s e ev"
  using assms unfolding conflictCases_def overlaps_def wf_event_def by auto

lemma overlaps_conflictCases: "overlaps s e ev \<Longrightarrow> conflictCases s e ev"
  unfolding conflictCases_def overlaps_def by auto

lemma conflictWhere_occupies:
  "conflictWhere loc s e ex ev = (occupies loc ev \<and> conflictCases s e ev \<and> notExcluded ex ev)"
  unfolding conflictWhere_def occupies_def by auto

lemma checkEventConflict_valid:
  "checkEventConflict db loc (ValidDate s) (ValidDate e) ex =
     Inr \<lparr>hasConflict = (find (conflictWhere loc s e ex) (events db) \<noteq> None),
          conflictingEvent =
            map_option (\<lambda>ev. (ev, createdBy db ev)) (find (conflictWhere loc s e ex) (events db))\<rparr>"
  by (simp split: option.split)

lemma find_not_None: "(find P xs \<noteq> None) = (\<exists>x\<in>set xs. P x)"
  by (auto simp: find_None_iff)

lemma find_Some_ex: "(\<exists>y. find P xs = Some y) = (\<exists>x\<in>set xs. P x)"
  using find_not_None [of P xs] by auto

text \<open>
  Claim C1. For a query with \<open>s < e\<close> against stored events that satisfy the invariant of
  the data model (start before end), \<^verbatim>\<open>checkEventConflict\<close> answers, and it reports a
  conflict exactly when some stored event at the location, pending or approved and not
  excluded, overlaps the query in the general sense \<open>s < endDate\<close> and \<open>startDate < e\<close>;
  on each stored event the three coded cases say the same as the general overlap.
\<close>

theorem checkEventConflict_general_overlap:
  assumes "s < e" and "wf_db db"
  shows "\<exists>r. checkEventConflict db loc (ValidDate s) (ValidDate e) ex = Inr r
           \<and> (hasConflict r \<longleftrightarrow>
                (\<exists>ev\<in>set (events db). occupies loc ev \<and> notExcluded ex ev \<and> overlaps s e ev))
           \<and> (\<forall>ev\<in>set (events db). conflictCases s e ev \<longleftrightarrow> overlaps s e ev)"
proof -
  have each: "\<forall>ev\<in>set (events db). conflictCases s e ev = overlaps s e ev"
    using assms conflictCases_overlaps by (auto simp: wf_db_def list_all_iff)
  then have "(\<exists>ev\<in>set (events db). conflictWhere loc s e ex ev) =
        (\<exists>ev\<in>set (events db). occupies loc ev \<and> notExcluded ex ev \<and> overlaps s e ev)"
    by (auto simp: conflictWhere_occupies)
  then show ?thesis
    using each by (simp add: checkEventConflict_valid find_Some_ex del: checkEventConflict.simps)
qed

theorem checkEventConflict_general_overlap_witness:
  "wf_db campusDb \<and>
   checkEventConflict campusDb ''Main Hall'' (ValidDate 39600000) (ValidDate 46800000) None
     = Inr \<lparr>hasConflict = True, conflictingEvent = Some (seminar, Some organizer1)\<rparr>
   \<and> overlaps 39600000 46800000 seminar"
proof -
  have h1: "(39600000::int) < 46800000" by simp
  have h2: "wf_db campusDb" by (simp add: wf_db_def campusDb_def wf_event_def seminar_def)
  show ?thesis
    using checkEventConflict_general_overlap [OF h1 h2, of "''Main Hall''" None] h2
    by (simp add: campusDb_def seminar_def organizer1_def conflictWhere_def conflictCases_def notExcluded_def createdBy_def overlaps_def)
qed

subsection \<open>Events that cannot block\<close>

lemma find_append_skip: "\<not> P x \<Longrightarrow> find P (xs @ x # ys) = find P (xs @ ys)"
  by (induction xs) auto

lemma createdBy_events [simp]: "createdBy (db\<lparr>events := evs\<rparr>) ev = createdBy db ev"
  by (simp add: createdBy_def)

lemma checkEventConflict_skip:
  assumes "\<And>s e. d1 = ValidDate s \<Longrightarrow> d2 = ValidDate e \<Longrightarrow> \<not> conflictWhere loc s e ex ev"
  shows "checkEventConflict (db\<lparr>events := xs @ ev # ys\<rparr>) loc d1 d2 ex
           = checkEventConflict (db\<lparr>events := xs @ ys\<rparr>) loc d1 d2 ex"
proof (cases d1)
  case InvalidDate
  then show ?thesis by simp
next
  case s: (ValidDate s)
  show ?thesis
  proof (cases d2)
    case InvalidDate
    then show ?thesis using s by simp
  next
    case e: (ValidDate e)
    have "\<not> conflictWhere loc s e ex ev" using assms s e by simp
    then show ?thesis using s e by (simp add: find_append_skip cong: option.case_cong)
  qed
qed

lemma checkEventConflict_found:
  assumes "checkEventConflict db loc d1 d2 ex = Inr r" and "conflictingEvent r = Some (c, u)"
  shows "\<exists>s e. d1 = ValidDate s \<and> d2 = ValidDate e \<and> c \<in> set (events db)
           \<and> conflictWhere loc s e ex c \<and> u = createdBy db c \<and> hasConflict r"
proof -
  obtain s e where d: "d1 = ValidDate s" "d2 = ValidDate e"
    using assms(1) by (cases d1; cases d2) auto
  then obtain ev where f: "find (conflictWhere loc s e ex) (events db) = Some ev"
        and r: "r = \<lparr>hasConflict = True, conflictingEvent = Some (ev, createdBy db ev)\<rparr>"
    using assms by (auto split: option.splits)
  from f have "ev \<in> set (events db)" "conflictWhere loc s e ex ev"
    by (auto simp: find_Some_iff)
  then show ?thesis using d r assms(2) by auto
qed

lemma touching_not_conflictCases:
  assumes "s < e" and "wf_event ev" and "endDate ev = s \<or> e = startDate ev"
  shows "\<not> conflictCases s e ev"
  using assms unfolding conflictCases_def wf_event_def by auto

text \<open>
  Claim C2. A stored event that the candidate interval only touches at a shared endpoint
  (its end is the candidate's start, or the candidate's end is its start) matches none of
  the three cases: alone in the table it gives no conflict, and anywhere in a table the
  answer of \<^verbatim>\<open>checkEventConflict\<close> is the one without it. With the event from 10:00 to
  12:00, the candidates 12:00 to 13:00 and 09:00 to 10:00 are free of conflict.
\<close>

theorem touching_endpoints_no_conflict:
  assumes "s < e" and "wf_event ev" and "endDate ev = s \<or> e = startDate ev"
  shows "\<not> conflictCases s e ev
         \<and> checkEventConflict (db\<lparr>events := [ev]\<rparr>) loc (ValidDate s) (ValidDate e) ex
             = Inr \<lparr>hasConflict = False, conflictingEvent = None\<rparr>
         \<and> checkEventConflict (db\<lparr>events := xs @ ev # ys\<rparr>) loc (ValidDate s) (ValidDate e) ex
             = checkEventConflict (db\<lparr>events := xs @ ys\<rparr>) loc (ValidDate s) (ValidDate e) ex"
proof -
  have n: "\<not> conflictCases s e ev" using assms by (rule touching_not_conflictCases)
  then have w: "\<not> conflictWhere loc s e ex ev" by (simp add: conflictWhere_def)
  have one: "checkEventConflict (db\<lparr>events := [ev]\<rparr>) loc (ValidDate s) (ValidDate e) ex
             = Inr \<lparr>hasConflict = False, conflictingEvent = None\<rparr>"
    using w by simp
  have skip: "checkEventConflict (db\<lparr>events := xs @ ev # ys\<rparr>) loc (ValidDate s) (ValidDate e) ex
             = checkEventConflict (db\<lparr>events := xs @ ys\<rparr>) loc (ValidDate s) (ValidDate e) ex"
    using w by (intro checkEventConflict_skip) simp
  show ?thesis using n one skip by simp
qed

theorem touching_endpoints_no_conflict_witness:
  "wf_event seminar
   \<and> checkEventConflict campusDb ''Main Hall'' (ValidDate 43200000) (ValidDate 46800000) None
       = Inr \<lparr>hasConflict = False, conflictingEvent = None\<rparr>
   \<and> checkEventConflict campusDb ''Main Hall'' (ValidDate 32400000) (ValidDate 36000000) None
       = Inr \<lparr>hasConflict = False, conflictingEvent = None\<rparr>"
proof -
  have wf: "wf_event seminar" by (simp add: wf_event_def seminar_def)
  have db: "campusDb\<lparr>events := [seminar]\<rparr> = campusDb" by (simp add: campusDb_def)
  have a1: "(43200000::int) < 46800000" and b1: "(32400000::int) < 36000000" by simp_all
  have a2: "endDate seminar = 43200000 \<or> (46800000::int) = startDate seminar"
    by (simp add: seminar_def)
  have b2: "endDate seminar = 32400000 \<or> (36000000::int) = startDate seminar"
    by (simp add: seminar_def)
  show ?thesis
    using touching_endpoints_no_conflict [OF a1 wf a2, where db = campusDb and loc = "''Main Hall''"
        and ex = None and xs = "[]" and ys = "[]"]
      touching_endpoints_no_conflict [OF b1 wf b2, where db = campusDb and loc = "''Main Hall''"
        and ex = None and xs = "[]" and ys = "[]"] wf db
    by simp
qed

text \<open>
  Claim C4. A rejected or cancelled event never blocks: for every location, interval and
  exclusion the answer of \<^verbatim>\<open>checkEventConflict\<close> is the one without that event, the
  event is never the conflicting event, and every conflicting event is pending or approved.
\<close>

theorem rejected_cancelled_never_conflict:
  assumes "status ev = REJECTED \<or> status ev = CANCELLED"
  shows "checkEventConflict (db\<lparr>events := xs @ ev # ys\<rparr>) loc d1 d2 ex
           = checkEventConflict (db\<lparr>events := xs @ ys\<rparr>) loc d1 d2 ex
         \<and> (\<forall>r c u. checkEventConflict db loc d1 d2 ex = Inr r \<and> conflictingEvent r = Some (c, u)
               \<longrightarrow> c \<noteq> ev \<and> (status c = PENDING \<or> status c = APPROVED))"
proof -
  have w: "\<not> conflictWhere loc s e ex ev" for s e
    using assms by (auto simp: conflictWhere_def)
  have skip: "checkEventConflict (db\<lparr>events := xs @ ev # ys\<rparr>) loc d1 d2 ex
           = checkEventConflict (db\<lparr>events := xs @ ys\<rparr>) loc d1 d2 ex"
    using w by (intro checkEventConflict_skip) simp
  have only: "c \<noteq> ev \<and> (status c = PENDING \<or> status c = APPROVED)"
    if found: "checkEventConflict db loc d1 d2 ex = Inr r" "conflictingEvent r = Some (c, u)"
    for r c u
  proof -
    obtain s e where "conflictWhere loc s e ex c"
      using checkEventConflict_found [OF found] by blast
    then show ?thesis using w by (auto simp: conflictWhere_def)
  qed
  show ?thesis using skip only by blast
qed

theorem rejected_cancelled_never_conflict_witness:
  "checkEventConflict (campusDb\<lparr>events := [seminar\<lparr>status := REJECTED\<rparr>]\<rparr>) ''Main Hall''
       (ValidDate 39600000) (ValidDate 46800000) None
     = Inr \<lparr>hasConflict = False, conflictingEvent = None\<rparr>"
proof -
  have h: "status (seminar\<lparr>status := REJECTED\<rparr>) = REJECTED
           \<or> status (seminar\<lparr>status := REJECTED\<rparr>) = CANCELLED" by simp
  show ?thesis
    using rejected_cancelled_never_conflict [OF h, where db = campusDb and xs = "[]" and ys = "[]"
        and loc = "''Main Hall''" and ?d1.0 = "ValidDate 39600000"
        and ?d2.0 = "ValidDate 46800000" and ex = None]
    by simp
qed

subsection \<open>The outcomes of the conflict check and of the handlers, case by case\<close>

lemma checkEventConflict_cases [case_names refused free conflict]:
  obtains
    "d1 = InvalidDate \<or> d2 = InvalidDate"
      "checkEventConflict db loc d1 d2 ex = Inl PrismaValidationError"
  | s e where "d1 = ValidDate s" "d2 = ValidDate e"
      "\<forall>ev\<in>set (events db). \<not> conflictWhere loc s e ex ev"
      "checkEventConflict db loc d1 d2 ex = Inr \<lparr>hasConflict = False, conflictingEvent = None\<rparr>"
  | s e c where "d1 = ValidDate s" "d2 = ValidDate e"
      "c \<in> set (events db)" "conflictWhere loc s e ex c"
      "checkEventConflict db loc d1 d2 ex
         = Inr \<lparr>hasConflict = True, conflictingEvent = Some (c, createdBy db c)\<rparr>"
proof (cases d1)
  case InvalidDate
  then show ?thesis using that(1) by simp
next
  case s: (ValidDate s)
  show ?thesis
  proof (cases d2)
    case InvalidDate
    then show ?thesis using that(1) s by simp
  next
    case e: (ValidDate e)
    show ?thesis
    proof (cases "find (conflictWhere loc s e ex) (events db)")
      case None
      then have "\<forall>ev\<in>set (events db). \<not> conflictWhere loc s e ex ev"
        by (auto simp: find_None_iff)
      then show ?thesis using that(2) s e None by simp
    next
      case (Some c)
      then have "c \<in> set (events db)" "conflictWhere loc s e ex c"
        by (auto simp: find_Some_iff)
      then show ?thesis using that(3) s e Some by simp
    qed
  qed
qed

lemma updateEvent_cases
  [case_names notFound forbidden direct badDates refused conflict free]:
  obtains
    "find (\<lambda>ev. event_id ev = u_id req) (events db) = None"
      "updateEvent env db req = reply 404 (ErrorJson ''Event not found'') db [EventFindUnique]"
  | event where "find (\<lambda>ev. event_id ev = u_id req) (events db) = Some event"
      "createdById event \<noteq> u_userId req" "u_role req \<noteq> ADMIN"
      "updateEvent env db req
         = reply 403 (ErrorJson ''You can only update your own events'') db [EventFindUnique]"
  | event where "find (\<lambda>ev. event_id ev = u_id req) (events db) = Some event"
      "createdById event = u_userId req \<or> u_role req = ADMIN"
      "\<not> truthy (b_location (u_body req))" "\<not> truthy (b_startDate (u_body req))"
      "\<not> truthy (b_endDate (u_body req))"
      "updateEvent env db req = persistUpdate env db req [EventFindUnique]"
  | event where "find (\<lambda>ev. event_id ev = u_id req) (events db) = Some event"
      "createdById event = u_userId req \<or> u_role req = ADMIN"
      "truthy (b_location (u_body req)) \<or> truthy (b_startDate (u_body req))
         \<or> truthy (b_endDate (u_body req))"
      "date_ge (newStartDate env (u_body req) event) (newEndDate env (u_body req) event)"
      "updateEvent env db req
         = reply 400 (ErrorJson ''End date must be after start date'') db [EventFindUnique]"
  | event where "find (\<lambda>ev. event_id ev = u_id req) (events db) = Some event"
      "createdById event = u_userId req \<or> u_role req = ADMIN"
      "truthy (b_location (u_body req)) \<or> truthy (b_startDate (u_body req))
         \<or> truthy (b_endDate (u_body req))"
      "newStartDate env (u_body req) event = InvalidDate
         \<or> newEndDate env (u_body req) event = InvalidDate"
      "updateEvent env db req
         = reply 500 (ErrorJson ''Failed to update event'') db [EventFindUnique, EventFindFirst]"
  | event s e c where "find (\<lambda>ev. event_id ev = u_id req) (events db) = Some event"
      "createdById event = u_userId req \<or> u_role req = ADMIN"
      "truthy (b_location (u_body req)) \<or> truthy (b_startDate (u_body req))
         \<or> truthy (b_endDate (u_body req))"
      "newStartDate env (u_body req) event = ValidDate s"
      "newEndDate env (u_body req) event = ValidDate e" "s < e"
      "c \<in> set (events db)"
      "conflictWhere (newLocation (u_body req) event) s e (Some (u_id req)) c"
      "updateEvent env db req
         = reply 409 (conflictBody env (c, createdBy db c)) db [EventFindUnique, EventFindFirst]"
  | event s e where "find (\<lambda>ev. event_id ev = u_id req) (events db) = Some event"
      "createdById event = u_userId req \<or> u_role req = ADMIN"
      "truthy (b_location (u_body req)) \<or> truthy (b_startDate (u_body req))
         \<or> truthy (b_endDate (u_body req))"
      "newStartDate env (u_body req) event = ValidDate s"
      "newEndDate env (u_body req) event = ValidDate e" "s < e"
      "\<forall>ev\<in>set (events db).
         \<not> conflictWhere (newLocation (u_body req) event) s e (Some (u_id req)) ev"
      "updateEvent env db req = persistUpdate env db req [EventFindUnique, EventFindFirst]"
proof (cases "find (\<lambda>ev. event_id ev = u_id req) (events db)")
  case None
  then show ?thesis using that(1) by (simp add: updateEvent_def Let_def)
next
  case (Some event)
  show ?thesis
  proof (cases "createdById event \<noteq> u_userId req \<and> u_role req \<noteq> ADMIN")
    case True
    then show ?thesis using that(2) [of event] Some by (simp add: updateEvent_def Let_def)
  next
    case auth: False
    show ?thesis
    proof (cases "truthy (b_location (u_body req)) \<or> truthy (b_startDate (u_body req))
         \<or> truthy (b_endDate (u_body req))")
      case False
      then show ?thesis using that(3) [of event] Some auth by (auto simp: updateEvent_def Let_def)
    next
      case guard: True
      show ?thesis
      proof (cases "date_ge (newStartDate env (u_body req) event)
                      (newEndDate env (u_body req) event)")
        case True
        then show ?thesis
          using that(4) [of event] Some auth guard by (auto simp: updateEvent_def Let_def)
      next
        case ok: False
        have unfold: "updateEvent env db req =
            (case checkEventConflict db (newLocation (u_body req) event)
                    (newStartDate env (u_body req) event) (newEndDate env (u_body req) event)
                    (Some (u_id req)) of
               Inl x \<Rightarrow>
                 reply 500 (ErrorJson ''Failed to update event'') db
                   [EventFindUnique, EventFindFirst]
             | Inr r \<Rightarrow>
                 if hasConflict r then
                   (case conflictingEvent r of
                      None \<Rightarrow>
                        reply 500 (ErrorJson ''Failed to update event'') db
                          [EventFindUnique, EventFindFirst]
                    | Some c \<Rightarrow>
                        reply 409 (conflictBody env c) db [EventFindUnique, EventFindFirst])
                 else persistUpdate env db req [EventFindUnique, EventFindFirst])"
          using Some auth guard ok by (auto simp: updateEvent_def Let_def)
        show ?thesis
        proof (cases db "newLocation (u_body req) event" "newStartDate env (u_body req) event"
            "newEndDate env (u_body req) event" "Some (u_id req)"
            rule: checkEventConflict_cases)
          case refused
          then show ?thesis using that(5) [of event] Some auth guard unfold by auto
        next
          case (free s e)
          then have "s < e" using ok by simp
          then show ?thesis using that(7) [of event s e] Some auth guard unfold free by auto
        next
          case (conflict s e c)
          then have "s < e" using ok by simp
          then show ?thesis
            using that(6) [of event s e c] Some auth guard unfold conflict by auto
        qed
      qed
    qed
  qed
qed

lemma createEvent_cases
  [case_names invalid badDates past refused conflict createFailed created]:
  fixes env db req
  defines "b \<equiv> c_body req"
  defines "start \<equiv> newDateOf env (b_startDate (c_body req))"
  defines "end' \<equiv> newDateOf env (b_endDate (c_body req))"
  obtains
    "validationResult env b \<noteq> []"
      "createEvent env db req = reply 400 (ErrorsJson (validationResult env b)) db []"
  | "validationResult env b = []" "date_ge start end'"
      "createEvent env db req
         = reply 400 (ErrorJson ''End date must be after start date'') db []"
  | "validationResult env b = []" "\<not> date_ge start end'" "date_lt start (ValidDate (now env))"
      "createEvent env db req
         = reply 400 (ErrorJson ''Start date must be in the future'') db []"
  | "validationResult env b = []" "\<not> date_lt start (ValidDate (now env))"
      "start = InvalidDate \<or> end' = InvalidDate"
      "createEvent env db req
         = reply 500 (ErrorJson ''Failed to create event'') db [EventFindFirst]"
  | s e c where "validationResult env b = []" "start = ValidDate s" "end' = ValidDate e"
      "s < e" "now env \<le> s" "c \<in> set (events db)" "conflictWhere (b_location b) s e None c"
      "createEvent env db req
         = reply 409 (conflictBody env (c, createdBy db c)) db [EventFindFirst]"
  | s e x where "validationResult env b = []" "start = ValidDate s" "end' = ValidDate e"
      "s < e" "now env \<le> s"
      "\<forall>ev\<in>set (events db). \<not> conflictWhere (b_location b) s e None ev"
      "eventCreate env db b start end' (normTags env (b_tags b)) (imageUrlOf (c_file req))
         (c_userId req) = Inl x"
      "createEvent env db req
         = reply 500 (ErrorJson ''Failed to create event'') db [EventFindFirst, EventCreate]"
  | s e db' ev where "validationResult env b = []" "start = ValidDate s" "end' = ValidDate e"
      "s < e" "now env \<le> s"
      "\<forall>ev\<in>set (events db). \<not> conflictWhere (b_location b) s e None ev"
      "eventCreate env db b start end' (normTags env (b_tags b)) (imageUrlOf (c_file req))
         (c_userId req) = Inr (db', ev)"
      "createEvent env db req
         = reply 201 (EventJson ''Event created successfully and pending approval'' ev
                        (createdBy db' ev)) db' [EventFindFirst, EventCreate]"
proof (cases "validationResult env b = []")
  case False
  then show ?thesis using that(1) by (simp add: createEvent_def Let_def b_def)
next
  case valid: True
  show ?thesis
  proof (cases "date_ge start end'")
    case True
    then show ?thesis
      using that(2) valid by (simp add: createEvent_def Let_def b_def start_def end'_def)
  next
    case order: False
    show ?thesis
    proof (cases "date_lt start (ValidDate (now env))")
      case True
      then show ?thesis
        using that(3) valid order by (simp add: createEvent_def Let_def b_def start_def end'_def)
    next
      case future: False
      have unfold: "createEvent env db req =
        (case checkEventConflict db (b_location b) start end' None of
           Inl x \<Rightarrow> reply 500 (ErrorJson ''Failed to create event'') db [EventFindFirst]
         | Inr r \<Rightarrow>
             if hasConflict r then
               (case conflictingEvent r of
                  None \<Rightarrow> reply 500 (ErrorJson ''Failed to create event'') db [EventFindFirst]
                | Some c \<Rightarrow> reply 409 (conflictBody env c) db [EventFindFirst])
             else
               (case eventCreate env db b start end' (normTags env (b_tags b))
                       (imageUrlOf (c_file req)) (c_userId req) of
                  Inl x \<Rightarrow>
                    reply 500 (ErrorJson ''Failed to create event'') db
                      [EventFindFirst, EventCreate]
                | Inr (db', ev) \<Rightarrow>
                    reply 201
                      (EventJson ''Event created successfully and pending approval'' ev
                         (createdBy db' ev))
                      db' [EventFindFirst, EventCreate]))"
        using valid order future unfolding createEvent_def Let_def b_def start_def end'_def by simp
      show ?thesis
      proof (cases db "b_location b" start end' "None :: string option"
          rule: checkEventConflict_cases)
        case refused
        then show ?thesis using that(4) valid future unfold by simp
      next
        case (conflict s e c)
        then have "s < e" "now env \<le> s" using order future by simp_all
        then show ?thesis using that(5) [of s e c] valid unfold conflict by simp
      next
        case (free s e)
        then have se: "s < e" "now env \<le> s" using order future by simp_all
        show ?thesis
        proof (cases "eventCreate env db b start end' (normTags env (b_tags b))
                        (imageUrlOf (c_file req)) (c_userId req)")
          case (Inl x)
          then show ?thesis using that(6) [of s e x] valid unfold free se by simp
        next
          case (Inr p)
          then show ?thesis
            using that(7) [of s e "fst p" "snd p"] valid unfold free se by (cases p) simp
        qed
      qed
    qed
  qed
qed

lemma persistUpdate_cases [case_names failed updated]:
  obtains
    x where "eventUpdate env db (u_id req) (u_body req) = Inl x"
      "persistUpdate env db req cs
         = reply 500 (ErrorJson ''Failed to update event'') db (cs @ [EventUpdate])"
  | db' ev where "eventUpdate env db (u_id req) (u_body req) = Inr (db', ev)"
      "persistUpdate env db req cs
         = reply 200 (EventJson ''Event updated successfully'' ev (createdBy db' ev)) db'
             (cs @ [EventUpdate])"
proof (cases "eventUpdate env db (u_id req) (u_body req)")
  case (Inl x)
  then show ?thesis using that(1) by (simp add: persistUpdate_def)
next
  case (Inr p)
  then show ?thesis using that(2) [of "fst p" "snd p"] by (cases p) (simp add: persistUpdate_def)
qed

lemma checkAvailability_cases [case_names missing badDates refused conflict free]:
  fixes env db q
  defines "start \<equiv> parseDate env (q_startDate q)"
  defines "end' \<equiv> parseDate env (q_endDate q)"
  defines "ex \<equiv> (if truthy (q_excludeEventId q) then Some (q_excludeEventId q) else None)"
  obtains
    "\<not> truthy (q_location q) \<or> \<not> truthy (q_startDate q) \<or> \<not> truthy (q_endDate q)"
      "checkAvailability env db q
         = reply 400 (ErrorJson ''Location, start date, and end date are required'') db []"
  | "truthy (q_location q)" "truthy (q_startDate q)" "truthy (q_endDate q)"
      "date_ge start end'"
      "checkAvailability env db q
         = reply 400 (ErrorJson ''End date must be after start date'') db []"
  | "truthy (q_location q)" "truthy (q_startDate q)" "truthy (q_endDate q)"
      "start = InvalidDate \<or> end' = InvalidDate"
      "checkAvailability env db q
         = reply 500 (ErrorJson ''Failed to check availability'') db [EventFindFirst]"
  | s e c where "truthy (q_location q)" "truthy (q_startDate q)" "truthy (q_endDate q)"
      "start = ValidDate s" "end' = ValidDate e" "s < e"
      "c \<in> set (events db)" "conflictWhere (q_location q) s e ex c"
      "checkAvailability env db q
         = reply 200 (AvailableJson False (bookedFor c) (Some (summary (c, createdBy db c))))
             db [EventFindFirst]"
  | s e where "truthy (q_location q)" "truthy (q_startDate q)" "truthy (q_endDate q)"
      "start = ValidDate s" "end' = ValidDate e" "s < e"
      "\<forall>ev\<in>set (events db). \<not> conflictWhere (q_location q) s e ex ev"
      "checkAvailability env db q
         = reply 200 (AvailableJson True ''Venue is available for the selected time'' None)
             db [EventFindFirst]"
proof (cases "\<not> truthy (q_location q) \<or> \<not> truthy (q_startDate q) \<or> \<not> truthy (q_endDate q)")
  case True
  then show ?thesis using that(1) by (simp add: checkAvailability_def)
next
  case False
  then have present: "truthy (q_location q)" "truthy (q_startDate q)" "truthy (q_endDate q)"
    by simp_all
  show ?thesis
  proof (cases "date_ge start end'")
    case True
    then show ?thesis
      using that(2) present by (simp add: checkAvailability_def Let_def start_def end'_def)
  next
    case order: False
    have unfold: "checkAvailability env db q =
        (case checkEventConflict db (q_location q) start end' ex of
           Inl x \<Rightarrow> reply 500 (ErrorJson ''Failed to check availability'') db [EventFindFirst]
         | Inr r \<Rightarrow>
             if hasConflict r then
               (case conflictingEvent r of
                  None \<Rightarrow>
                    reply 500 (ErrorJson ''Failed to check availability'') db [EventFindFirst]
                | Some c \<Rightarrow>
                    reply 200 (AvailableJson False (bookedFor (fst c)) (Some (summary c))) db
                      [EventFindFirst])
             else
               reply 200 (AvailableJson True ''Venue is available for the selected time'' None)
                 db [EventFindFirst])"
      using present order
      unfolding checkAvailability_def Let_def start_def end'_def ex_def by simp
    show ?thesis
    proof (cases db "q_location q" start end' ex rule: checkEventConflict_cases)
      case refused
      then show ?thesis using that(3) present unfold by simp
    next
      case (conflict s e c)
      then have "s < e" using order by simp
      then show ?thesis using that(4) [of s e c] present unfold conflict by simp
    next
      case (free s e)
      then have "s < e" using order by simp
      then show ?thesis using that(5) [of s e] present unfold free by simp
    qed
  qed
qed

subsection \<open>Excluding the event that is being updated\<close>

lemma find_filter_implied: "(\<And>x. P x \<Longrightarrow> Q x) \<Longrightarrow> find P (filter Q xs) = find P xs"
  by (induction xs) auto

lemma response_reply [simp]:
  "statusCode (response (reply code b db cs)) = code"
  "body (response (reply code b db cs)) = b"
  "store (reply code b db cs) = db"
  "calls (reply code b db cs) = cs"
  by (simp_all add: reply_def)

lemma updateEvent_conflict_response:
  assumes "body (response (updateEvent env db req)) = ConflictJson a m cs"
  shows "\<exists>loc s e c. c \<in> set (events db) \<and> conflictWhere loc s e (Some (u_id req)) c
           \<and> cs = summary (c, createdBy db c)"
proof (cases rule: updateEvent_cases [where env = env and db = db and req = req])
  case (conflict event s e c)
  then show ?thesis using assms by (auto simp: conflictBody_def)
next
  case (direct event)
  then show ?thesis using assms
    by (cases rule: persistUpdate_cases [where env = env and db = db and req = req
          and cs = "[EventFindUnique]"]) auto
next
  case (free event s e)
  then show ?thesis using assms
    by (cases rule: persistUpdate_cases [where env = env and db = db and req = req
          and cs = "[EventFindUnique, EventFindFirst]"]) auto
qed (use assms in auto)

text \<open>
  Claim C5. With the identifier of a stored event as \<^verbatim>\<open>excludeEventId\<close> (identifiers
  are not empty), \<^verbatim>\<open>checkEventConflict\<close> answers as on the table without the rows of
  that identifier, so the conflicting event is always another stored event, pending or
  approved, at the location; and the conflicting event of a 409 response of
  \<^verbatim>\<open>updateEvent\<close> is never the event that is updated.
\<close>

theorem exclude_own_id_no_self_conflict:
  assumes "truthy i"
  shows "checkEventConflict db loc d1 d2 (Some i)
           = checkEventConflict (db\<lparr>events := filter (\<lambda>ev. event_id ev \<noteq> i) (events db)\<rparr>)
               loc d1 d2 (Some i)
         \<and> (\<forall>r c u. checkEventConflict db loc d1 d2 (Some i) = Inr r
                \<and> conflictingEvent r = Some (c, u)
              \<longrightarrow> event_id c \<noteq> i \<and> c \<in> set (events db) \<and> occupies loc c)
         \<and> (\<forall>req a m cs. u_id req = i
                \<and> body (response (updateEvent env db req)) = ConflictJson a m cs
              \<longrightarrow> cs_id cs \<noteq> i)"
proof -
  have other: "event_id ev \<noteq> i" if "conflictWhere l s e (Some i) ev" for l s e ev
    using that assms by (simp add: conflictWhere_def notExcluded_def)
  have same: "checkEventConflict db loc d1 d2 (Some i)
           = checkEventConflict (db\<lparr>events := filter (\<lambda>ev. event_id ev \<noteq> i) (events db)\<rparr>)
               loc d1 d2 (Some i)"
  proof (cases d1; cases d2)
    fix s e assume "d1 = ValidDate s" and "d2 = ValidDate e"
    moreover have "find (conflictWhere loc s e (Some i)) (filter (\<lambda>ev. event_id ev \<noteq> i) (events db))
        = find (conflictWhere loc s e (Some i)) (events db)"
      using other by (intro find_filter_implied) blast
    ultimately show ?thesis by (simp cong: option.case_cong)
  qed simp_all
  have found: "event_id c \<noteq> i \<and> c \<in> set (events db) \<and> occupies loc c"
    if f: "checkEventConflict db loc d1 d2 (Some i) = Inr r" "conflictingEvent r = Some (c, u)"
    for r c u
    using checkEventConflict_found [OF f] other by (auto simp: conflictWhere_occupies)
  have upd: "cs_id cs \<noteq> i"
    if u: "u_id req = i" "body (response (updateEvent env db req)) = ConflictJson a m cs"
    for req a m cs
  proof -
    obtain l s e c where "conflictWhere l s e (Some i) c" "cs = summary (c, createdBy db c)"
      using updateEvent_conflict_response [OF u(2)] u(1) by blast
    then show ?thesis using other by (simp add: summary_def)
  qed
  show ?thesis using same found upd by blast
qed

theorem exclude_own_id_no_self_conflict_witness:
  "truthy ''e1''
   \<and> checkEventConflict campusDb ''Main Hall'' (ValidDate 36000000) (ValidDate 43200000)
       (Some ''e1'') = Inr \<lparr>hasConflict = False, conflictingEvent = None\<rparr>
   \<and> checkEventConflict campusDb ''Main Hall'' (ValidDate 36000000) (ValidDate 43200000) None
       = Inr \<lparr>hasConflict = True, conflictingEvent = Some (seminar, Some organizer1)\<rparr>"
proof -
  have h: "truthy ''e1''" by (simp add: truthy_def)
  have e: "filter (\<lambda>ev. event_id ev \<noteq> ''e1'') (events campusDb) = []"
    by (simp add: campusDb_def seminar_def)
  have own: "checkEventConflict campusDb ''Main Hall'' (ValidDate 36000000) (ValidDate 43200000)
       (Some ''e1'') = Inr \<lparr>hasConflict = False, conflictingEvent = None\<rparr>"
    using exclude_own_id_no_self_conflict [OF h, where db = campusDb and loc = "''Main Hall''"
        and ?d1.0 = "ValidDate 36000000" and ?d2.0 = "ValidDate 43200000"] e
    by simp
  have plain: "checkEventConflict campusDb ''Main Hall'' (ValidDate 36000000) (ValidDate 43200000) None
       = Inr \<lparr>hasConflict = True, conflictingEvent = Some (seminar, Some organizer1)\<rparr>"
    by (simp add: campusDb_def seminar_def organizer1_def conflictWhere_def conflictCases_def
        notExcluded_def createdBy_def)
  show ?thesis using h own plain by simp
qed

subsection \<open>The handlers keep the invariant of the stored events\<close>

lemma eventCreate_wf_db:
  assumes "wf_db db" and "eventCreate env db b (ValidDate s) (ValidDate e) tgs img uid = Inr (db', ev)"
    and "s < e"
  shows "wf_db db'"
  using assms
  by (auto simp: wf_db_def wf_event_def Let_def split: option.splits if_splits)

lemma createEvent_wf_db:
  assumes "wf_db db"
  shows "wf_db (store (createEvent env db req))"
proof (cases rule: createEvent_cases [where env = env and db = db and req = req])
  case (created s e db' ev)
  then show ?thesis using eventCreate_wf_db [OF assms, of env "c_body req" s e] by simp
qed (use assms in simp_all)

lemma setDates_wf:
  assumes "setDates env b ev = Inr ev'"
    and "newStartDate env b ev = ValidDate s" and "newEndDate env b ev = ValidDate e" and "s < e"
  shows "wf_event ev'"
  using assms
  by (auto simp: setDates_def newStartDate_def newEndDate_def wf_event_def
      split: Date.splits if_splits)

lemma updateData_dates:
  assumes "updateData env b ev = Inr ev'"
  shows "\<exists>ev1. setDates env b (setTexts b ev) = Inr ev1
           \<and> startDate ev' = startDate ev1 \<and> endDate ev' = endDate ev1"
proof -
  obtain ev1 ev2 where 1: "setDates env b (setTexts b ev) = Inr ev1"
    and 2: "setMaxAttendees env b ev1 = Inr ev2" and 3: "setTags env b ev2 = Inr ev'"
    using assms by (auto simp: updateData_def split: sum.splits)
  have "startDate ev2 = startDate ev1 \<and> endDate ev2 = endDate ev1"
    using 2 by (auto simp: setMaxAttendees_def split: if_splits option.splits)
  moreover have "startDate ev' = startDate ev2 \<and> endDate ev' = endDate ev2"
    using 3 by (auto simp: setTags_def split: if_splits option.splits Tags.splits)
  ultimately show ?thesis using 1 by simp
qed

lemma newDates_setTexts [simp]:
  "newStartDate env b (setTexts b ev) = newStartDate env b ev"
  "newEndDate env b (setTexts b ev) = newEndDate env b ev"
  by (simp_all add: newStartDate_def newEndDate_def setTexts_def)

lemma eventUpdate_wf_db:
  assumes "wf_db db" and "eventUpdate env db i b = Inr (db', ev')"
    and "\<And>ev. find (\<lambda>ev. event_id ev = i) (events db) = Some ev \<Longrightarrow>
           (\<exists>s e. newStartDate env b ev = ValidDate s \<and> newEndDate env b ev = ValidDate e \<and> s < e)"
  shows "wf_db db'"
proof -
  obtain ev where f: "find (\<lambda>ev. event_id ev = i) (events db) = Some ev"
    and u: "updateData env b ev = Inr ev'"
    and d: "db' = db\<lparr>events := map (\<lambda>r. if event_id r = i then ev' else r) (events db)\<rparr>"
    using assms(2) by (auto simp: eventUpdate_def split: option.splits sum.splits)
  obtain s e where se: "newStartDate env b ev = ValidDate s" "newEndDate env b ev = ValidDate e"
      "s < e"
    using assms(3) [OF f] by blast
  obtain ev1 where s1: "setDates env b (setTexts b ev) = Inr ev1"
    and dd: "startDate ev' = startDate ev1" "endDate ev' = endDate ev1"
    using updateData_dates [OF u] by blast
  have "wf_event ev1" using setDates_wf [OF s1] se by simp
  then have "wf_event ev'" using dd by (simp add: wf_event_def)
  then show ?thesis using assms(1) d by (auto simp: wf_db_def list_all_iff)
qed

lemma persistUpdate_wf_db:
  assumes "wf_db db"
    and "\<And>ev. find (\<lambda>ev. event_id ev = u_id req) (events db) = Some ev \<Longrightarrow>
           (\<exists>s e. newStartDate env (u_body req) ev = ValidDate s
              \<and> newEndDate env (u_body req) ev = ValidDate e \<and> s < e)"
  shows "wf_db (store (persistUpdate env db req cs))"
proof (cases rule: persistUpdate_cases [where env = env and db = db and req = req and cs = cs])
  case (failed x)
  then show ?thesis using assms(1) by simp
next
  case (updated db' ev)
  then show ?thesis using eventUpdate_wf_db [OF assms(1) updated(1) assms(2)] by simp
qed

lemma updateEvent_wf_db:
  assumes "wf_db db"
  shows "wf_db (store (updateEvent env db req))"
proof (cases rule: updateEvent_cases [where env = env and db = db and req = req])
  case (direct event)
  then have "event \<in> set (events db)" by (auto simp: find_Some_iff)
  then have "startDate event < endDate event"
    using assms by (auto simp: wf_db_def list_all_iff wf_event_def)
  then have "\<exists>s e. newStartDate env (u_body req) event = ValidDate s
              \<and> newEndDate env (u_body req) event = ValidDate e \<and> s < e"
    using direct by (simp add: newStartDate_def newEndDate_def)
  then show ?thesis using direct persistUpdate_wf_db [OF assms, of req env] by simp
next
  case (free event s e)
  then show ?thesis using persistUpdate_wf_db [OF assms, of req env] by simp
qed (use assms in simp_all)

subsection \<open>The schedule of a venue\<close>

lemma those_slotOf_shows:
  "those (map slotOf (map (\<lambda>ev. (ev, createdBy db ev)) evs)) = Some slots
     \<Longrightarrow> list_all2 (showsEvent db) slots evs"
proof (induction evs arbitrary: slots)
  case Nil
  then show ?case by simp
next
  case (Cons ev evs)
  then obtain sl rest where sl: "slotOf (ev, createdBy db ev) = Some sl"
    and rest: "those (map slotOf (map (\<lambda>ev. (ev, createdBy db ev)) evs)) = Some rest"
    and slots: "slots = sl # rest"
    by (auto split: option.splits)
  have "showsEvent db sl ev"
    using sl by (auto simp: slotOf_def showsEvent_def split: option.splits)
  then show ?case using Cons.IH [OF rest] slots by simp
qed

lemma those_slotOf_fk:
  "\<forall>ev\<in>set evs. createdBy db ev \<noteq> None
     \<Longrightarrow> \<exists>slots. those (map slotOf (map (\<lambda>ev. (ev, createdBy db ev)) evs)) = Some slots"
  by (induction evs) (auto simp: slotOf_def)

lemma shows_slot_start:
  "list_all2 (showsEvent db) slots evs \<Longrightarrow> map slot_start slots = map startDate evs"
  by (induction rule: list_all2_induct) (auto simp: showsEvent_def)

lemma scheduleWhere_inWindow:
  "scheduleWhere loc s e ev = (occupies loc ev \<and> inWindow s e ev)"
  by (auto simp: scheduleWhere_def scheduleCases_def occupies_def inWindow_def)

lemma getVenueSchedule_cases [case_names missing refused noCreator listed]:
  obtains
    "\<not> truthy (s_location q)"
      "getVenueSchedule env db q = reply 400 (ErrorJson ''Location is required'') db []"
  | "truthy (s_location q)"
      "scheduleStart env q = InvalidDate \<or> scheduleEnd env q = InvalidDate"
      "getVenueSchedule env db q
         = reply 500 (ErrorJson ''Failed to fetch venue schedule'') db [EventFindMany]"
  | s e ev where "truthy (s_location q)"
      "scheduleStart env q = ValidDate s" "scheduleEnd env q = ValidDate e"
      "ev \<in> set (events db)" "createdBy db ev = None"
      "getVenueSchedule env db q
         = reply 500 (ErrorJson ''Failed to fetch venue schedule'') db [EventFindMany]"
  | s e slots where "truthy (s_location q)"
      "scheduleStart env q = ValidDate s" "scheduleEnd env q = ValidDate e"
      "list_all2 (showsEvent db) slots
         (sort_key startDate (filter (scheduleWhere (s_location q) s e) (events db)))"
      "getVenueSchedule env db q
         = reply 200 (ScheduleJson (s_location q) (ValidDate s) (ValidDate e) slots) db
             [EventFindMany]"
proof (cases "truthy (s_location q)")
  case False
  then show ?thesis using that(1) by (simp add: getVenueSchedule_def)
next
  case loc: True
  show ?thesis
  proof (cases "scheduleStart env q")
    case InvalidDate
    then show ?thesis using that(2) loc by (simp add: getVenueSchedule_def)
  next
    case s: (ValidDate s)
    show ?thesis
    proof (cases "scheduleEnd env q")
      case InvalidDate
      then show ?thesis using that(2) loc s by (simp add: getVenueSchedule_def)
    next
      case e: (ValidDate e)
      define evs where
        "evs = sort_key startDate (filter (scheduleWhere (s_location q) s e) (events db))"
      show ?thesis
      proof (cases "those (map slotOf (map (\<lambda>ev. (ev, createdBy db ev)) evs))")
        case None
        have "\<not> (\<forall>ev\<in>set evs. createdBy db ev \<noteq> None)"
        proof
          assume "\<forall>ev\<in>set evs. createdBy db ev \<noteq> None"
          then obtain slots where
            "those (map slotOf (map (\<lambda>ev. (ev, createdBy db ev)) evs)) = Some slots"
            using those_slotOf_fk by blast
          then show False using None by simp
        qed
        then obtain ev where "ev \<in> set (events db)" "createdBy db ev = None"
          by (auto simp: evs_def)
        then show ?thesis
          using that(3) [of s e ev] loc s e None by (simp add: getVenueSchedule_def evs_def)
      next
        case (Some slots)
        then have "list_all2 (showsEvent db) slots evs" by (rule those_slotOf_shows)
        then show ?thesis
          using that(4) [of s e slots] loc s e Some by (simp add: getVenueSchedule_def evs_def)
      qed
    qed
  qed
qed

lemma getVenueSchedule_listed:
  assumes "truthy (s_location q)"
    and "scheduleStart env q = ValidDate s" and "scheduleEnd env q = ValidDate e"
    and "fk_db db"
  shows "\<exists>slots. getVenueSchedule env db q
             = reply 200 (ScheduleJson (s_location q) (ValidDate s) (ValidDate e) slots) db
                 [EventFindMany]
           \<and> list_all2 (showsEvent db) slots
               (sort_key startDate (filter (scheduleWhere (s_location q) s e) (events db)))"
proof (cases rule: getVenueSchedule_cases [where env = env and db = db and q = q])
  case (noCreator s' e' ev)
  then show ?thesis using assms(4) by (auto simp: fk_db_def list_all_iff)
next
  case (listed s' e' slots)
  then show ?thesis using assms by auto
qed (use assms in auto)

lemma conflictWhere_inWindow:
  assumes "wf_event ev" and "conflictWhere loc s e ex ev"
  shows "occupies loc ev \<and> inWindow s e ev"
  using assms
  unfolding conflictWhere_def conflictCases_def inWindow_def occupies_def wf_event_def
  by auto

lemma touching_inWindow:
  assumes "s < e" and "wf_event ev" and "endDate ev = s \<or> startDate ev = e"
  shows "inWindow s e ev"
  using assms unfolding inWindow_def wf_event_def by auto

text \<open>
  Claim C3. For a location and a window of valid dates, \<^verbatim>\<open>getVenueSchedule\<close> answers
  with one booked slot for each pending or approved event at the location that passes the
  closed-interval test, and for no other, in the order of their start. The test passes
  every stored event that the conflict check matches, and it also passes an event that
  ends at the start of the window, or starts at its end, which the conflict check over
  the same window does not match.
\<close>

theorem getVenueSchedule_inclusive_window:
  assumes "truthy (s_location q)"
    and "scheduleStart env q = ValidDate s" and "scheduleEnd env q = ValidDate e"
    and "fk_db db"
  shows "(\<exists>slots. getVenueSchedule env db q
             = reply 200 (ScheduleJson (s_location q) (ValidDate s) (ValidDate e) slots) db
                 [EventFindMany]
            \<and> list_all2 (showsEvent db) slots
                (sort_key startDate
                   (filter (\<lambda>ev. occupies (s_location q) ev \<and> inWindow s e ev) (events db))))
         \<and> (\<forall>ev ex. wf_event ev \<and> conflictWhere (s_location q) s e ex ev
               \<longrightarrow> occupies (s_location q) ev \<and> inWindow s e ev)
         \<and> (\<forall>ev ex. s < e \<and> wf_event ev \<and> (endDate ev = s \<or> startDate ev = e)
               \<longrightarrow> inWindow s e ev \<and> \<not> conflictWhere (s_location q) s e ex ev)"
proof -
  have w: "scheduleWhere (s_location q) s e
             = (\<lambda>ev. occupies (s_location q) ev \<and> inWindow s e ev)"
    by (rule ext) (rule scheduleWhere_inWindow)
  have listed: "\<exists>slots. getVenueSchedule env db q
             = reply 200 (ScheduleJson (s_location q) (ValidDate s) (ValidDate e) slots) db
                 [EventFindMany]
            \<and> list_all2 (showsEvent db) slots
                (sort_key startDate
                   (filter (\<lambda>ev. occupies (s_location q) ev \<and> inWindow s e ev) (events db)))"
    using getVenueSchedule_listed [OF assms] unfolding w .
  have incl: "occupies (s_location q) ev \<and> inWindow s e ev"
    if "wf_event ev \<and> conflictWhere (s_location q) s e ex ev" for ev ex
    using that conflictWhere_inWindow by blast
  have touch: "inWindow s e ev \<and> \<not> conflictWhere (s_location q) s e ex ev"
    if t: "s < e \<and> wf_event ev \<and> (endDate ev = s \<or> startDate ev = e)" for ev ex
  proof -
    have "\<not> conflictCases s e ev"
      using t by (intro touching_not_conflictCases) auto
    then show ?thesis using t touching_inWindow by (auto simp: conflictWhere_def)
  qed
  show ?thesis using listed incl touch by blast
qed

theorem getVenueSchedule_inclusive_window_witness:
  "fk_db campusDb
   \<and> getVenueSchedule campusEnv campusDb
       \<lparr>s_location = ''Main Hall'', s_startDate = ''12:00'', s_endDate = ''13:00''\<rparr>
     = reply 200
         (ScheduleJson ''Main Hall'' (ValidDate 43200000) (ValidDate 46800000)
            [\<lparr>slot_id = ''e1'', slot_title = ''Seminar'', slot_start = 36000000,
              slot_end = 43200000, slot_status = APPROVED,
              slot_organizer = ''Tech Club President''\<rparr>])
         campusDb [EventFindMany]
   \<and> checkEventConflict campusDb ''Main Hall'' (ValidDate 43200000) (ValidDate 46800000) None
     = Inr \<lparr>hasConflict = False, conflictingEvent = None\<rparr>"
proof -
  let ?q = "\<lparr>s_location = ''Main Hall'', s_startDate = ''12:00'', s_endDate = ''13:00''\<rparr>"
  have fk: "fk_db campusDb"
    by (simp add: fk_db_def campusDb_def createdBy_def seminar_def organizer1_def)
  have loc: "truthy (s_location ?q)" by (simp add: truthy_def)
  have st: "scheduleStart campusEnv ?q = ValidDate 43200000"
    by (simp add: scheduleStart_def truthy_def campusEnv_def clockParse_def)
  have en: "scheduleEnd campusEnv ?q = ValidDate 46800000"
    by (simp add: scheduleEnd_def truthy_def campusEnv_def clockParse_def)
  have rows: "filter (\<lambda>ev. occupies ''Main Hall'' ev \<and> inWindow 43200000 46800000 ev)
                (events campusDb) = [seminar]"
    by (simp add: campusDb_def seminar_def occupies_def inWindow_def)
  obtain slots where out: "getVenueSchedule campusEnv campusDb ?q
       = reply 200 (ScheduleJson ''Main Hall'' (ValidDate 43200000) (ValidDate 46800000) slots)
           campusDb [EventFindMany]"
    and sh: "list_all2 (showsEvent campusDb) slots [seminar]"
    using getVenueSchedule_inclusive_window [OF loc st en fk] rows by auto
  obtain sl where one: "slots = [sl]" and sl: "showsEvent campusDb sl seminar"
    using sh by (auto simp: list_all2_Cons2)
  have "sl = \<lparr>slot_id = ''e1'', slot_title = ''Seminar'', slot_start = 36000000,
              slot_end = 43200000, slot_status = APPROVED,
              slot_organizer = ''Tech Club President''\<rparr>"
    using sl
    by (cases sl) (simp add: showsEvent_def seminar_def createdBy_def campusDb_def organizer1_def)
  then have sched: "getVenueSchedule campusEnv campusDb ?q
     = reply 200
         (ScheduleJson ''Main Hall'' (ValidDate 43200000) (ValidDate 46800000)
            [\<lparr>slot_id = ''e1'', slot_title = ''Seminar'', slot_start = 36000000,
              slot_end = 43200000, slot_status = APPROVED,
              slot_organizer = ''Tech Club President''\<rparr>])
         campusDb [EventFindMany]"
    using out one by simp
  have free: "checkEventConflict campusDb ''Main Hall'' (ValidDate 43200000) (ValidDate 46800000)
       None = Inr \<lparr>hasConflict = False, conflictingEvent = None\<rparr>"
    by (simp add: campusDb_def seminar_def conflictWhere_def conflictCases_def)
  show ?thesis using fk sched free by simp
qed

text \<open>
  Claim C7. A request with a location and neither date asks for the window from the
  current time to exactly seven days (7 * 24 * 60 * 60 * 1000 ms) later, the clock being
  at least seven days before the last time value of a date; that window is the one
  queried and returned. For every request, the booked slots of the response are in
  ascending order of their start.
\<close>

theorem getVenueSchedule_default_week_sorted:
  "(truthy (s_location q) \<and> \<not> truthy (s_startDate q) \<and> \<not> truthy (s_endDate q)
      \<and> - maxTime \<le> now env \<and> now env + 7 * 24 * 60 * 60 * 1000 \<le> maxTime
    \<longrightarrow> scheduleStart env q = ValidDate (now env)
        \<and> scheduleEnd env q = ValidDate (now env + 7 * 24 * 60 * 60 * 1000)
        \<and> calls (getVenueSchedule env db q) = [EventFindMany]
        \<and> (fk_db db \<longrightarrow>
             (\<exists>slots. getVenueSchedule env db q
                 = reply 200
                     (ScheduleJson (s_location q) (ValidDate (now env))
                        (ValidDate (now env + 7 * 24 * 60 * 60 * 1000)) slots)
                     db [EventFindMany]
               \<and> list_all2 (showsEvent db) slots
                   (sort_key startDate
                      (filter (scheduleWhere (s_location q) (now env)
                                 (now env + 7 * 24 * 60 * 60 * 1000))
                         (events db))))))
   \<and> (\<forall>loc st en slots.
         body (response (getVenueSchedule env db q)) = ScheduleJson loc st en slots
         \<longrightarrow> sorted (map slot_start slots))"
proof -
  have window: "scheduleStart env q = ValidDate (now env)
        \<and> scheduleEnd env q = ValidDate (now env + 7 * 24 * 60 * 60 * 1000)"
    if "\<not> truthy (s_startDate q)" "\<not> truthy (s_endDate q)"
      "- maxTime \<le> now env" "now env + 7 * 24 * 60 * 60 * 1000 \<le> maxTime"
    using that by (simp add: scheduleStart_def scheduleEnd_def weekMs_def newDate_def)
  have called: "calls (getVenueSchedule env db q) = [EventFindMany]" if "truthy (s_location q)"
    using that
    by (cases rule: getVenueSchedule_cases [where env = env and db = db and q = q]) simp_all
  have srt: "sorted (map slot_start slots)"
    if b: "body (response (getVenueSchedule env db q)) = ScheduleJson loc st en slots"
    for loc st en slots
  proof (cases rule: getVenueSchedule_cases [where env = env and db = db and q = q])
    case (listed s e slots')
    then have "map slot_start slots
        = map startDate (sort_key startDate (filter (scheduleWhere (s_location q) s e) (events db)))"
      using b shows_slot_start by auto
    then show ?thesis by simp
  qed (use b in simp_all)
  show ?thesis
    using window called srt getVenueSchedule_listed [of q env "now env"
        "now env + 7 * 24 * 60 * 60 * 1000" db]
    by blast
qed

theorem getVenueSchedule_default_week_sorted_witness:
  "getVenueSchedule campusEnv busyDb
       \<lparr>s_location = ''Main Hall'', s_startDate = [], s_endDate = []\<rparr>
     = reply 200
         (ScheduleJson ''Main Hall'' (ValidDate 0) (ValidDate 604800000)
            [\<lparr>slot_id = ''e0'', slot_title = ''Lecture'', slot_start = 28800000,
              slot_end = 32400000, slot_status = PENDING,
              slot_organizer = ''Tech Club President''\<rparr>,
             \<lparr>slot_id = ''e1'', slot_title = ''Seminar'', slot_start = 36000000,
              slot_end = 43200000, slot_status = APPROVED,
              slot_organizer = ''Tech Club President''\<rparr>])
         busyDb [EventFindMany]"
proof -
  let ?q = "\<lparr>s_location = ''Main Hall'', s_startDate = [], s_endDate = []\<rparr>"
  have fk: "fk_db busyDb"
    by (simp add: fk_db_def busyDb_def createdBy_def seminar_def lecture_def organizer1_def)
  have h: "truthy (s_location ?q) \<and> \<not> truthy (s_startDate ?q) \<and> \<not> truthy (s_endDate ?q)
      \<and> - maxTime \<le> now campusEnv \<and> now campusEnv + 7 * 24 * 60 * 60 * 1000 \<le> maxTime"
    by (simp add: truthy_def campusEnv_def maxTime_def)
  have rows: "sort_key startDate (filter (scheduleWhere ''Main Hall'' 0 604800000) (events busyDb))
      = [lecture, seminar]"
    by (simp add: busyDb_def seminar_def lecture_def scheduleWhere_def scheduleCases_def)
  have n: "now campusEnv = 0" by (simp add: campusEnv_def)
  obtain slots where out: "getVenueSchedule campusEnv busyDb ?q
       = reply 200 (ScheduleJson ''Main Hall'' (ValidDate 0) (ValidDate 604800000) slots)
           busyDb [EventFindMany]"
    and sh: "list_all2 (showsEvent busyDb) slots [lecture, seminar]"
    using getVenueSchedule_default_week_sorted [of ?q campusEnv busyDb] h fk rows n by auto
  obtain sl1 sl2 where two: "slots = [sl1, sl2]"
    and sl1: "showsEvent busyDb sl1 lecture" and sl2: "showsEvent busyDb sl2 seminar"
    using sh by (auto simp: list_all2_Cons2)
  have "sl1 = \<lparr>slot_id = ''e0'', slot_title = ''Lecture'', slot_start = 28800000,
              slot_end = 32400000, slot_status = PENDING,
              slot_organizer = ''Tech Club President''\<rparr>"
    using sl1
    by (cases sl1) (simp add: showsEvent_def lecture_def createdBy_def busyDb_def organizer1_def)
  moreover have "sl2 = \<lparr>slot_id = ''e1'', slot_title = ''Seminar'', slot_start = 36000000,
              slot_end = 43200000, slot_status = APPROVED,
              slot_organizer = ''Tech Club President''\<rparr>"
    using sl2
    by (cases sl2) (simp add: showsEvent_def seminar_def createdBy_def busyDb_def organizer1_def)
  ultimately show ?thesis using out two by simp
qed

subsection \<open>Validation before the query in checkAvailability\<close>

lemma checkAvailability_validation:
  assumes "\<not> truthy (q_location q) \<or> \<not> truthy (q_startDate q) \<or> \<not> truthy (q_endDate q)
           \<or> date_ge (parseDate env (q_startDate q)) (parseDate env (q_endDate q))"
  shows "statusCode (response (checkAvailability env db q)) = 400
         \<and> calls (checkAvailability env db q) = []
         \<and> store (checkAvailability env db q) = db"
  using assms
  by (cases rule: checkAvailability_cases [where env = env and db = db and q = q]) auto

lemma checkAvailability_valid_dates:
  assumes "parseDate env (q_startDate q) = ValidDate s"
    and "parseDate env (q_endDate q) = ValidDate e"
  shows "(calls (checkAvailability env db q) = [EventFindFirst])
           = (truthy (q_location q) \<and> truthy (q_startDate q) \<and> truthy (q_endDate q) \<and> s < e)"
    and "statusCode (response (checkAvailability env db q)) = 400
         \<or> (\<exists>a m c. body (response (checkAvailability env db q)) = AvailableJson a m c)"
  using assms
  by (cases rule: checkAvailability_cases [where env = env and db = db and q = q]; auto)+

text \<open>
  Claim C6. The claim holds for dates that parse (the two lemmas above). A date string
  that does not parse gives an invalid date, which no comparison rejects: a request with
  all three fields, one of whose dates does not parse, passes both checks, the query is
  made, the ORM refuses it, and the response is a server error instead of a validation
  error or an answer.
\<close>

theorem checkAvailability_invalid_date_reaches_store:
  assumes "truthy (q_location q)" and "truthy (q_startDate q)" and "truthy (q_endDate q)"
    and "parseDate env (q_startDate q) = InvalidDate \<or> parseDate env (q_endDate q) = InvalidDate"
  shows "\<not> date_lt (parseDate env (q_startDate q)) (parseDate env (q_endDate q))
         \<and> checkAvailability env db q
             = reply 500 (ErrorJson ''Failed to check availability'') db [EventFindFirst]"
proof -
  have nlt: "\<not> date_lt (parseDate env (q_startDate q)) (parseDate env (q_endDate q))"
    using assms(4) by (cases "parseDate env (q_startDate q)"; cases "parseDate env (q_endDate q)") auto
  have nge: "\<not> date_ge (parseDate env (q_startDate q)) (parseDate env (q_endDate q))"
    using assms(4) by (cases "parseDate env (q_startDate q)"; cases "parseDate env (q_endDate q)") auto
  have "checkAvailability env db q
             = reply 500 (ErrorJson ''Failed to check availability'') db [EventFindFirst]"
    using assms nge
    by (cases rule: checkAvailability_cases [where env = env and db = db and q = q]) auto
  then show ?thesis using nlt by simp
qed

theorem checkAvailability_invalid_date_reaches_store_witness:
  "checkAvailability campusEnv campusDb
       \<lparr>q_location = ''Main Hall'', q_startDate = ''tomorrow'', q_endDate = ''later'',
        q_excludeEventId = []\<rparr>
     = reply 500 (ErrorJson ''Failed to check availability'') campusDb [EventFindFirst]"
proof -
  let ?q = "\<lparr>q_location = ''Main Hall'', q_startDate = ''tomorrow'', q_endDate = ''later'',
        q_excludeEventId = []\<rparr>"
  have p: "truthy (q_location ?q)" "truthy (q_startDate ?q)" "truthy (q_endDate ?q)"
    by (simp_all add: truthy_def)
  have i: "parseDate campusEnv (q_startDate ?q) = InvalidDate
           \<or> parseDate campusEnv (q_endDate ?q) = InvalidDate"
    by (simp add: campusEnv_def clockParse_def)
  show ?thesis
    using checkAvailability_invalid_date_reaches_store [OF p i, of campusDb] by simp
qed

subsection \<open>The conflict check and persistence in createEvent and updateEvent\<close>

lemma createEvent_calls:
  "calls (createEvent env db req) = []
   \<or> calls (createEvent env db req) = [EventFindFirst]
   \<or> calls (createEvent env db req) = [EventFindFirst, EventCreate]"
  by (cases rule: createEvent_cases [where env = env and db = db and req = req]) simp_all

lemma createEvent_store:
  "store (createEvent env db req) \<noteq> db
     \<Longrightarrow> calls (createEvent env db req) = [EventFindFirst, EventCreate]
         \<and> statusCode (response (createEvent env db req)) = 201"
  by (cases rule: createEvent_cases [where env = env and db = db and req = req]) simp_all

lemma persistUpdate_calls [simp]: "calls (persistUpdate env db req cs) = cs @ [EventUpdate]"
  by (cases rule: persistUpdate_cases [where env = env and db = db and req = req and cs = cs])
     simp_all

lemma persistUpdate_status:
  "statusCode (response (persistUpdate env db req cs)) = 200
   \<or> statusCode (response (persistUpdate env db req cs)) = 500
      \<and> store (persistUpdate env db req cs) = db"
  by (cases rule: persistUpdate_cases [where env = env and db = db and req = req and cs = cs])
     simp_all

lemma updateEvent_gate:
  "EventFindFirst \<in> set (calls (updateEvent env db req))
     \<Longrightarrow> truthy (b_location (u_body req)) \<or> truthy (b_startDate (u_body req))
         \<or> truthy (b_endDate (u_body req))"
  by (cases rule: updateEvent_cases [where env = env and db = db and req = req]) simp_all

lemma updateEvent_checked_first:
  assumes "truthy (b_location (u_body req)) \<or> truthy (b_startDate (u_body req))
           \<or> truthy (b_endDate (u_body req))"
    and "EventUpdate \<in> set (calls (updateEvent env db req))"
  shows "calls (updateEvent env db req) = [EventFindUnique, EventFindFirst, EventUpdate]"
  using assms
  by (cases rule: updateEvent_cases [where env = env and db = db and req = req]) simp_all

lemma updateEvent_store:
  "store (updateEvent env db req) \<noteq> db \<Longrightarrow> EventUpdate \<in> set (calls (updateEvent env db req))"
  by (cases rule: updateEvent_cases [where env = env and db = db and req = req]) simp_all

lemma createEvent_on_conflict:
  assumes "validationResult env (c_body req) = []"
    and "\<not> date_ge (newDateOf env (b_startDate (c_body req)))
             (newDateOf env (b_endDate (c_body req)))"
    and "\<not> date_lt (newDateOf env (b_startDate (c_body req))) (ValidDate (now env))"
    and "checkEventConflict db (b_location (c_body req))
           (newDateOf env (b_startDate (c_body req))) (newDateOf env (b_endDate (c_body req)))
           None = Inr r"
    and "conflictingEvent r = Some c"
  shows "createEvent env db req = reply 409 (conflictBody env c) db [EventFindFirst]"
proof -
  have "hasConflict r"
    using checkEventConflict_found [OF assms(4), of "fst c" "snd c"] assms(5) by auto
  then show ?thesis using assms by (simp add: createEvent_def Let_def)
qed

lemma updateEvent_on_conflict:
  assumes "find (\<lambda>ev. event_id ev = u_id req) (events db) = Some event"
    and "createdById event = u_userId req \<or> u_role req = ADMIN"
    and "truthy (b_location (u_body req)) \<or> truthy (b_startDate (u_body req))
         \<or> truthy (b_endDate (u_body req))"
    and "\<not> date_ge (newStartDate env (u_body req) event) (newEndDate env (u_body req) event)"
    and "checkEventConflict db (newLocation (u_body req) event)
           (newStartDate env (u_body req) event) (newEndDate env (u_body req) event)
           (Some (u_id req)) = Inr r"
    and "conflictingEvent r = Some c"
  shows "updateEvent env db req
           = reply 409 (conflictBody env c) db [EventFindUnique, EventFindFirst]"
proof -
  have "hasConflict r"
    using checkEventConflict_found [OF assms(5), of "fst c" "snd c"] assms(6) by auto
  then show ?thesis using assms by (auto simp: updateEvent_def Let_def)
qed

lemma createEvent_409:
  assumes "statusCode (response (createEvent env db req)) = 409"
  shows "store (createEvent env db req) = db
         \<and> calls (createEvent env db req) = [EventFindFirst]
         \<and> (\<exists>c\<in>set (events db).
               body (response (createEvent env db req)) = conflictBody env (c, createdBy db c))"
  using assms
  by (cases rule: createEvent_cases [where env = env and db = db and req = req]) auto

lemma updateEvent_409:
  assumes "statusCode (response (updateEvent env db req)) = 409"
  shows "store (updateEvent env db req) = db
         \<and> calls (updateEvent env db req) = [EventFindUnique, EventFindFirst]
         \<and> (\<exists>c\<in>set (events db).
               body (response (updateEvent env db req)) = conflictBody env (c, createdBy db c))"
proof (cases rule: updateEvent_cases [where env = env and db = db and req = req])
  case (direct event)
  then show ?thesis
    using assms persistUpdate_status [of env db req "[EventFindUnique]"] by auto
next
  case (free event s e)
  then show ?thesis
    using assms persistUpdate_status [of env db req "[EventFindUnique, EventFindFirst]"] by auto
qed (use assms in auto)

lemma conflictBody_fields:
  "conflictBody env (c, u)
     = ConflictJson ''Venue conflict detected'' (conflictMessage env c)
         \<lparr>cs_id = event_id c, cs_title = title c, cs_startDate = startDate c,
          cs_endDate = endDate c,
          cs_organizer =
            (case u of None \<Rightarrow> None
             | Some usr \<Rightarrow> if name usr \<noteq> [] then Some (name usr) else clubName usr)\<rparr>"
  by (cases u) (simp_all add: conflictBody_def summary_def organizerOf_def truthy_def)

text \<open>
  Claim C8, as stated, fails: an update that supplies none of location, start and end is
  persisted without any conflict check.
\<close>

theorem update_persisted_without_conflict_check:
  "calls (updateEvent campusEnv campusDb
            \<lparr>u_id = ''e1'', u_userId = ''u1'', u_role = ORGANIZER,
             u_body = emptyBody\<lparr>b_title := ''Renamed''\<rparr>\<rparr>)
     = [EventFindUnique, EventUpdate]
   \<and> store (updateEvent campusEnv campusDb
            \<lparr>u_id = ''e1'', u_userId = ''u1'', u_role = ORGANIZER,
             u_body = emptyBody\<lparr>b_title := ''Renamed''\<rparr>\<rparr>)
     = campusDb\<lparr>events := [seminar\<lparr>title := ''Renamed''\<rparr>]\<rparr>"
  by (simp add: updateEvent_def persistUpdate_def eventUpdate_def updateData_def setDates_def
      setTexts_def setMaxAttendees_def setTags_def reply_def truthy_def emptyBody_def
      campusDb_def seminar_def campusEnv_def Let_def)

text \<open>
  Claim C8, amended. A create request, and an update request that supplies at least one
  of location, start and end, is persisted only after the conflict check. When the check
  finds a conflicting event, the handler answers 409 with the error, the message and the
  conflicting event's id, title, start, end and organizer (the creator's name, or the
  club name when the name is empty), and the database is unchanged; every 409 response is
  of this kind.
\<close>

theorem conflict_check_before_persisting:
  "(store (createEvent env db req) \<noteq> db \<or> EventCreate \<in> set (calls (createEvent env db req))
      \<longrightarrow> calls (createEvent env db req) = [EventFindFirst, EventCreate])
   \<and> (truthy (b_location (u_body ureq)) \<or> truthy (b_startDate (u_body ureq))
         \<or> truthy (b_endDate (u_body ureq))
      \<longrightarrow> (store (updateEvent env db ureq) \<noteq> db
             \<or> EventUpdate \<in> set (calls (updateEvent env db ureq))
           \<longrightarrow> calls (updateEvent env db ureq)
                 = [EventFindUnique, EventFindFirst, EventUpdate]))
   \<and> (\<forall>r c. validationResult env (c_body req) = []
         \<and> \<not> date_ge (newDateOf env (b_startDate (c_body req)))
                (newDateOf env (b_endDate (c_body req)))
         \<and> \<not> date_lt (newDateOf env (b_startDate (c_body req))) (ValidDate (now env))
         \<and> checkEventConflict db (b_location (c_body req))
              (newDateOf env (b_startDate (c_body req)))
              (newDateOf env (b_endDate (c_body req))) None = Inr r
         \<and> conflictingEvent r = Some c
       \<longrightarrow> createEvent env db req = reply 409 (conflictBody env c) db [EventFindFirst])
   \<and> (\<forall>event r c. find (\<lambda>ev. event_id ev = u_id ureq) (events db) = Some event
         \<and> (createdById event = u_userId ureq \<or> u_role ureq = ADMIN)
         \<and> (truthy (b_location (u_body ureq)) \<or> truthy (b_startDate (u_body ureq))
              \<or> truthy (b_endDate (u_body ureq)))
         \<and> \<not> date_ge (newStartDate env (u_body ureq) event)
                (newEndDate env (u_body ureq) event)
         \<and> checkEventConflict db (newLocation (u_body ureq) event)
              (newStartDate env (u_body ureq) event) (newEndDate env (u_body ureq) event)
              (Some (u_id ureq)) = Inr r
         \<and> conflictingEvent r = Some c
       \<longrightarrow> updateEvent env db ureq
             = reply 409 (conflictBody env c) db [EventFindUnique, EventFindFirst])
   \<and> (statusCode (response (createEvent env db req)) = 409
       \<longrightarrow> store (createEvent env db req) = db
           \<and> calls (createEvent env db req) = [EventFindFirst]
           \<and> (\<exists>c\<in>set (events db).
                 body (response (createEvent env db req)) = conflictBody env (c, createdBy db c)))
   \<and> (statusCode (response (updateEvent env db ureq)) = 409
       \<longrightarrow> store (updateEvent env db ureq) = db
           \<and> calls (updateEvent env db ureq) = [EventFindUnique, EventFindFirst]
           \<and> (\<exists>c\<in>set (events db).
                 body (response (updateEvent env db ureq)) = conflictBody env (c, createdBy db c)))
   \<and> (\<forall>c u. conflictBody env (c, u)
         = ConflictJson ''Venue conflict detected'' (conflictMessage env c)
             \<lparr>cs_id = event_id c, cs_title = title c, cs_startDate = startDate c,
              cs_endDate = endDate c,
              cs_organizer =
                (case u of None \<Rightarrow> None
                 | Some usr \<Rightarrow> if name usr \<noteq> [] then Some (name usr) else clubName usr)\<rparr>)"
proof -
  have c1: "store (createEvent env db req) \<noteq> db \<or> EventCreate \<in> set (calls (createEvent env db req))
      \<longrightarrow> calls (createEvent env db req) = [EventFindFirst, EventCreate]"
    using createEvent_store [of env db req] createEvent_calls [of env db req] by auto
  have u1: "truthy (b_location (u_body ureq)) \<or> truthy (b_startDate (u_body ureq))
         \<or> truthy (b_endDate (u_body ureq))
      \<longrightarrow> (store (updateEvent env db ureq) \<noteq> db
             \<or> EventUpdate \<in> set (calls (updateEvent env db ureq))
           \<longrightarrow> calls (updateEvent env db ureq)
                 = [EventFindUnique, EventFindFirst, EventUpdate])"
    using updateEvent_checked_first [of ureq env db] updateEvent_store [of env db ureq] by blast
  have c2: "\<forall>r c. validationResult env (c_body req) = []
         \<and> \<not> date_ge (newDateOf env (b_startDate (c_body req)))
                (newDateOf env (b_endDate (c_body req)))
         \<and> \<not> date_lt (newDateOf env (b_startDate (c_body req))) (ValidDate (now env))
         \<and> checkEventConflict db (b_location (c_body req))
              (newDateOf env (b_startDate (c_body req)))
              (newDateOf env (b_endDate (c_body req))) None = Inr r
         \<and> conflictingEvent r = Some c
       \<longrightarrow> createEvent env db req = reply 409 (conflictBody env c) db [EventFindFirst]"
    using createEvent_on_conflict [of env req db] by blast
  have u2: "\<forall>event r c. find (\<lambda>ev. event_id ev = u_id ureq) (events db) = Some event
         \<and> (createdById event = u_userId ureq \<or> u_role ureq = ADMIN)
         \<and> (truthy (b_location (u_body ureq)) \<or> truthy (b_startDate (u_body ureq))
              \<or> truthy (b_endDate (u_body ureq)))
         \<and> \<not> date_ge (newStartDate env (u_body ureq) event)
                (newEndDate env (u_body ureq) event)
         \<and> checkEventConflict db (newLocation (u_body ureq) event)
              (newStartDate env (u_body ureq) event) (newEndDate env (u_body ureq) event)
              (Some (u_id ureq)) = Inr r
         \<and> conflictingEvent r = Some c
       \<longrightarrow> updateEvent env db ureq
             = reply 409 (conflictBody env c) db [EventFindUnique, EventFindFirst]"
    using updateEvent_on_conflict [of ureq db _ env] by blast
  have c3: "statusCode (response (createEvent env db req)) = 409
       \<longrightarrow> store (createEvent env db req) = db
           \<and> calls (createEvent env db req) = [EventFindFirst]
           \<and> (\<exists>c\<in>set (events db).
                 body (response (createEvent env db req)) = conflictBody env (c, createdBy db c))"
    using createEvent_409 [of env db req] by blast
  have u3: "statusCode (response (updateEvent env db ureq)) = 409
       \<longrightarrow> store (updateEvent env db ureq) = db
           \<and> calls (updateEvent env db ureq) = [EventFindUnique, EventFindFirst]
           \<and> (\<exists>c\<in>set (events db).
                 body (response (updateEvent env db ureq)) = conflictBody env (c, createdBy db c))"
    using updateEvent_409 [of env db ureq] by blast
  have f: "\<forall>c u. conflictBody env (c, u)
         = ConflictJson ''Venue conflict detected'' (conflictMessage env c)
             \<lparr>cs_id = event_id c, cs_title = title c, cs_startDate = startDate c,
              cs_endDate = endDate c,
              cs_organizer =
                (case u of None \<Rightarrow> None
                 | Some usr \<Rightarrow> if name usr \<noteq> [] then Some (name usr) else clubName usr)\<rparr>"
    using conflictBody_fields [of env] by blast
  show ?thesis
    by (intro conjI) (rule c1 u1 c2 u2 c3 u3 f)+
qed

theorem conflict_check_before_persisting_witness:
  "createEvent campusEnv campusDb \<lparr>c_body = workshopBody, c_file = None, c_userId = ''u1''\<rparr>
     = reply 409
         (ConflictJson ''Venue conflict detected'' (conflictMessage campusEnv seminar)
            \<lparr>cs_id = ''e1'', cs_title = ''Seminar'', cs_startDate = 36000000,
             cs_endDate = 43200000, cs_organizer = Some ''Tech Club President''\<rparr>)
         campusDb [EventFindFirst]"
proof -
  let ?req = "\<lparr>c_body = workshopBody, c_file = None, c_userId = ''u1''\<rparr>"
  have v: "validationResult campusEnv (c_body ?req) = []"
    by (simp add: validationResult_def workshopBody_def truthy_def campusEnv_def clockParse_def)
  have s: "newDateOf campusEnv (b_startDate (c_body ?req)) = ValidDate 39600000"
    by (simp add: newDateOf_def workshopBody_def truthy_def campusEnv_def clockParse_def)
  have e: "newDateOf campusEnv (b_endDate (c_body ?req)) = ValidDate 46800000"
    by (simp add: newDateOf_def workshopBody_def truthy_def campusEnv_def clockParse_def)
  have n: "now campusEnv = 0" by (simp add: campusEnv_def)
  have l: "b_location (c_body ?req) = ''Main Hall''" by (simp add: workshopBody_def)
  have chk: "checkEventConflict campusDb ''Main Hall'' (ValidDate 39600000) (ValidDate 46800000)
       None = Inr \<lparr>hasConflict = True, conflictingEvent = Some (seminar, Some organizer1)\<rparr>"
    by (simp add: campusDb_def seminar_def organizer1_def conflictWhere_def conflictCases_def
        notExcluded_def createdBy_def)
  note all = conflict_check_before_persisting [where env = campusEnv and db = campusDb
      and req = ?req]
  have "createEvent campusEnv campusDb ?req
      = reply 409 (conflictBody campusEnv (seminar, Some organizer1)) campusDb [EventFindFirst]"
    using all [THEN conjunct2, THEN conjunct2, THEN conjunct1] v s e n l chk by simp
  moreover have "conflictBody campusEnv (seminar, Some organizer1)
      = ConflictJson ''Venue conflict detected'' (conflictMessage campusEnv seminar)
            \<lparr>cs_id = ''e1'', cs_title = ''Seminar'', cs_startDate = 36000000,
             cs_endDate = 43200000, cs_organizer = Some ''Tech Club President''\<rparr>"
    by (simp add: conflictBody_def summary_def organizerOf_def truthy_def seminar_def
        organizer1_def)
  ultimately show ?thesis by simp
qed

subsection \<open>A start in the past\<close>

text \<open>
  Claim C9. A create request whose parsed start is earlier than the current time is
  answered 400 before any call on the store, and the database is unchanged; once the
  field validators and the order of the two dates have passed, the error is
  ``Start date must be in the future''. So every event that \<^verbatim>\<open>createEvent\<close> adds to the
  table starts at the current time or later.
\<close>

theorem createEvent_rejects_past_start:
  "(date_lt (newDateOf env (b_startDate (c_body req))) (ValidDate (now env))
      \<longrightarrow> statusCode (response (createEvent env db req)) = 400
          \<and> calls (createEvent env db req) = []
          \<and> store (createEvent env db req) = db)
   \<and> (validationResult env (c_body req) = []
         \<and> \<not> date_ge (newDateOf env (b_startDate (c_body req)))
                (newDateOf env (b_endDate (c_body req)))
         \<and> date_lt (newDateOf env (b_startDate (c_body req))) (ValidDate (now env))
      \<longrightarrow> createEvent env db req
            = reply 400 (ErrorJson ''Start date must be in the future'') db [])
   \<and> (\<forall>ev. ev \<in> set (events (store (createEvent env db req))) \<and> ev \<notin> set (events db)
         \<longrightarrow> now env \<le> startDate ev)"
proof -
  have past: "date_lt (newDateOf env (b_startDate (c_body req))) (ValidDate (now env))
      \<longrightarrow> statusCode (response (createEvent env db req)) = 400
          \<and> calls (createEvent env db req) = []
          \<and> store (createEvent env db req) = db"
    by (cases rule: createEvent_cases [where env = env and db = db and req = req]) auto
  have msg: "validationResult env (c_body req) = []
         \<and> \<not> date_ge (newDateOf env (b_startDate (c_body req)))
                (newDateOf env (b_endDate (c_body req)))
         \<and> date_lt (newDateOf env (b_startDate (c_body req))) (ValidDate (now env))
      \<longrightarrow> createEvent env db req
            = reply 400 (ErrorJson ''Start date must be in the future'') db []"
    by (simp add: createEvent_def Let_def)
  have new: "\<forall>ev. ev \<in> set (events (store (createEvent env db req))) \<and> ev \<notin> set (events db)
         \<longrightarrow> now env \<le> startDate ev"
  proof (cases rule: createEvent_cases [where env = env and db = db and req = req])
    case (created s e db' ev)
    then show ?thesis
      by (auto simp: Let_def split: option.splits if_splits)
  qed simp_all
  show ?thesis by (intro conjI) (rule past msg new)+
qed

theorem createEvent_rejects_past_start_witness:
  "createEvent (campusEnv\<lparr>now := 43200000\<rparr>) campusDb
       \<lparr>c_body = workshopBody, c_file = None, c_userId = ''u1''\<rparr>
     = reply 400 (ErrorJson ''Start date must be in the future'') campusDb []"
proof -
  let ?env = "campusEnv\<lparr>now := 43200000\<rparr>"
  let ?req = "\<lparr>c_body = workshopBody, c_file = None, c_userId = ''u1''\<rparr>"
  have v: "validationResult ?env (c_body ?req) = []"
    by (simp add: validationResult_def workshopBody_def truthy_def campusEnv_def clockParse_def)
  have s: "newDateOf ?env (b_startDate (c_body ?req)) = ValidDate 39600000"
    by (simp add: newDateOf_def workshopBody_def truthy_def campusEnv_def clockParse_def)
  have e: "newDateOf ?env (b_endDate (c_body ?req)) = ValidDate 46800000"
    by (simp add: newDateOf_def workshopBody_def truthy_def campusEnv_def clockParse_def)
  have n: "now ?env = 43200000" by simp
  show ?thesis
    using createEvent_rejects_past_start [where env = ?env and db = campusDb and req = ?req,
        THEN conjunct2, THEN conjunct1] v s e n
    by simp
qed

subsection \<open>The gate of the conflict check in updateEvent\<close>

text \<open>
  Claim C10. \<^verbatim>\<open>updateEvent\<close> calls the conflict check only for a request that
  supplies the location, the start or the end, and then on the slot in which the stored
  event's values stand for the fields that are not supplied. A request of the creator or
  an admin for a stored event that supplies none of the three goes straight to the
  update: no conflict check, no comparison of the dates (no 400 and no 409), and the row
  that the ORM accepts is persisted.
\<close>

theorem updateEvent_conflict_check_gate:
  "(EventFindFirst \<in> set (calls (updateEvent env db req))
      \<longrightarrow> truthy (b_location (u_body req)) \<or> truthy (b_startDate (u_body req))
          \<or> truthy (b_endDate (u_body req)))
   \<and> (\<forall>event. find (\<lambda>ev. event_id ev = u_id req) (events db) = Some event
         \<and> (createdById event = u_userId req \<or> u_role req = ADMIN)
         \<and> (truthy (b_location (u_body req)) \<or> truthy (b_startDate (u_body req))
              \<or> truthy (b_endDate (u_body req)))
         \<and> \<not> date_ge (newStartDate env (u_body req) event) (newEndDate env (u_body req) event)
       \<longrightarrow> calls (updateEvent env db req) \<noteq> [EventFindUnique]
           \<and> (statusCode (response (updateEvent env db req)) = 409)
               = (\<exists>r. checkEventConflict db (newLocation (u_body req) event)
                         (newStartDate env (u_body req) event)
                         (newEndDate env (u_body req) event) (Some (u_id req)) = Inr r
                       \<and> hasConflict r))
   \<and> (\<forall>event. newLocation (u_body req) event
                 = (if truthy (b_location (u_body req)) then b_location (u_body req)
                    else location event)
         \<and> newStartDate env (u_body req) event
             = (if truthy (b_startDate (u_body req))
                then parseDate env (b_startDate (u_body req))
                else ValidDate (startDate event))
         \<and> newEndDate env (u_body req) event
             = (if truthy (b_endDate (u_body req)) then parseDate env (b_endDate (u_body req))
                else ValidDate (endDate event)))
   \<and> (\<forall>event. find (\<lambda>ev. event_id ev = u_id req) (events db) = Some event
         \<and> (createdById event = u_userId req \<or> u_role req = ADMIN)
         \<and> \<not> truthy (b_location (u_body req)) \<and> \<not> truthy (b_startDate (u_body req))
         \<and> \<not> truthy (b_endDate (u_body req))
       \<longrightarrow> calls (updateEvent env db req) = [EventFindUnique, EventUpdate]
           \<and> statusCode (response (updateEvent env db req)) \<noteq> 400
           \<and> statusCode (response (updateEvent env db req)) \<noteq> 409
           \<and> (\<forall>db' ev'. eventUpdate env db (u_id req) (u_body req) = Inr (db', ev')
                 \<longrightarrow> updateEvent env db req
                       = reply 200
                           (EventJson ''Event updated successfully'' ev' (createdBy db' ev'))
                           db' [EventFindUnique, EventUpdate]))"
proof -
  have gate: "EventFindFirst \<in> set (calls (updateEvent env db req))
      \<longrightarrow> truthy (b_location (u_body req)) \<or> truthy (b_startDate (u_body req))
          \<or> truthy (b_endDate (u_body req))"
    using updateEvent_gate [of env db req] by blast
  have checked: "calls (updateEvent env db req) \<noteq> [EventFindUnique]
           \<and> (statusCode (response (updateEvent env db req)) = 409)
               = (\<exists>r. checkEventConflict db (newLocation (u_body req) event)
                         (newStartDate env (u_body req) event)
                         (newEndDate env (u_body req) event) (Some (u_id req)) = Inr r
                       \<and> hasConflict r)"
    if f: "find (\<lambda>ev. event_id ev = u_id req) (events db) = Some event"
      and a: "createdById event = u_userId req \<or> u_role req = ADMIN"
      and g: "truthy (b_location (u_body req)) \<or> truthy (b_startDate (u_body req))
              \<or> truthy (b_endDate (u_body req))"
      and d: "\<not> date_ge (newStartDate env (u_body req) event) (newEndDate env (u_body req) event)"
    for event
  proof (cases rule: updateEvent_cases [where env = env and db = db and req = req])
    case (refused event')
    then have "checkEventConflict db (newLocation (u_body req) event)
                 (newStartDate env (u_body req) event) (newEndDate env (u_body req) event)
                 (Some (u_id req)) = Inl PrismaValidationError"
      using f
      by (cases "newStartDate env (u_body req) event"; cases "newEndDate env (u_body req) event")
         auto
    then show ?thesis using refused by simp
  next
    case (conflict event' s e c)
    then have "\<exists>y. find (conflictWhere (newLocation (u_body req) event) s e (Some (u_id req)))
                 (events db) = Some y"
      using f by (auto simp: find_Some_ex)
    then show ?thesis using conflict f by auto
  next
    case (free event' s e)
    then have "find (conflictWhere (newLocation (u_body req) event) s e (Some (u_id req)))
                 (events db) = None"
      using f by (auto simp: find_None_iff)
    then show ?thesis
      using free f persistUpdate_status [of env db req "[EventFindUnique, EventFindFirst]"]
      by auto
  qed (use f a g d in auto)
  have filled: "\<forall>event. newLocation (u_body req) event
                 = (if truthy (b_location (u_body req)) then b_location (u_body req)
                    else location event)
         \<and> newStartDate env (u_body req) event
             = (if truthy (b_startDate (u_body req))
                then parseDate env (b_startDate (u_body req))
                else ValidDate (startDate event))
         \<and> newEndDate env (u_body req) event
             = (if truthy (b_endDate (u_body req)) then parseDate env (b_endDate (u_body req))
                else ValidDate (endDate event))"
    by (simp only: newLocation_def newStartDate_def newEndDate_def) simp
  have direct: "calls (updateEvent env db req) = [EventFindUnique, EventUpdate]
           \<and> statusCode (response (updateEvent env db req)) \<noteq> 400
           \<and> statusCode (response (updateEvent env db req)) \<noteq> 409
           \<and> (\<forall>db' ev'. eventUpdate env db (u_id req) (u_body req) = Inr (db', ev')
                 \<longrightarrow> updateEvent env db req
                       = reply 200
                           (EventJson ''Event updated successfully'' ev' (createdBy db' ev'))
                           db' [EventFindUnique, EventUpdate])"
    if f: "find (\<lambda>ev. event_id ev = u_id req) (events db) = Some event"
      and a: "createdById event = u_userId req \<or> u_role req = ADMIN"
      and g: "\<not> truthy (b_location (u_body req))" "\<not> truthy (b_startDate (u_body req))"
        "\<not> truthy (b_endDate (u_body req))"
    for event
  proof -
    have u: "updateEvent env db req = persistUpdate env db req [EventFindUnique]"
      using f a g by (auto simp: updateEvent_def Let_def)
    show ?thesis
      unfolding u
      by (cases rule: persistUpdate_cases [where env = env and db = db and req = req
            and cs = "[EventFindUnique]"]) auto
  qed
  show ?thesis
    apply (intro conjI)
       apply (rule gate)
      apply (intro allI impI; elim conjE; rule checked; assumption)
     apply (rule filled)
    apply (intro allI impI; elim conjE; rule direct; assumption)
    done
qed

theorem updateEvent_conflict_check_gate_witness:
  "updateEvent campusEnv campusDb
       \<lparr>u_id = ''e1'', u_userId = ''u1'', u_role = ORGANIZER,
        u_body = emptyBody\<lparr>b_description := ''Updated''\<rparr>\<rparr>
     = reply 200
         (EventJson ''Event updated successfully'' (seminar\<lparr>description := ''Updated''\<rparr>)
            (Some organizer1))
         (campusDb\<lparr>events := [seminar\<lparr>description := ''Updated''\<rparr>]\<rparr>)
         [EventFindUnique, EventUpdate]"
proof -
  let ?req = "\<lparr>u_id = ''e1'', u_userId = ''u1'', u_role = ORGANIZER,
        u_body = emptyBody\<lparr>b_description := ''Updated''\<rparr>\<rparr>"
  have f: "find (\<lambda>ev. event_id ev = u_id ?req) (events campusDb) = Some seminar"
    by (simp add: campusDb_def seminar_def)
  have a: "createdById seminar = u_userId ?req \<or> u_role ?req = ADMIN"
    by (simp add: seminar_def)
  have g: "\<not> truthy (b_location (u_body ?req)) \<and> \<not> truthy (b_startDate (u_body ?req))
         \<and> \<not> truthy (b_endDate (u_body ?req))"
    by (simp add: emptyBody_def truthy_def)
  have u: "eventUpdate campusEnv campusDb (u_id ?req) (u_body ?req)
      = Inr (campusDb\<lparr>events := [seminar\<lparr>description := ''Updated''\<rparr>]\<rparr>,
             seminar\<lparr>description := ''Updated''\<rparr>)"
    by (simp add: eventUpdate_def updateData_def setDates_def setTexts_def setMaxAttendees_def
        setTags_def truthy_def emptyBody_def campusDb_def seminar_def)
  have c: "createdBy (campusDb\<lparr>events := [seminar\<lparr>description := ''Updated''\<rparr>]\<rparr>)
             (seminar\<lparr>description := ''Updated''\<rparr>) = Some organizer1"
    by (simp add: createdBy_def campusDb_def seminar_def organizer1_def)
  show ?thesis
    using updateEvent_conflict_check_gate [where env = campusEnv and db = campusDb
        and req = ?req, THEN conjunct2, THEN conjunct2, THEN conjunct2] f a g u c
    by auto
qed

end
